theory Spec2Isabelle
  imports Complex_Main "HOL-Library.Sublist" "HOL-Library.AList"
begin

section \<open>The download server (server.js), three recorded versions\<close>

text \<open>
  The source file holds three versions of \<^verbatim>\<open>server.js\<close>: the retrying version
  (\<^verbatim>\<open>tryDownloadWithFallbacks\<close>, with the rate limiter), the simple version
  (one subprocess, \<^verbatim>\<open>stdout.pipe(res)\<close>) and the simple version with the rate
  limiter. Definitions that embed code of one version carry its name as a suffix;
  code that is textually the same in several versions is embedded once.

  Instants (\<^verbatim>\<open>Date.now()\<close>, milliseconds) are integers. JavaScript strings are
  lists of characters; a \<^typ>\<open>char\<close> stands for a code unit below 256.
\<close>

subsection \<open>Rate limiter\<close>

type_synonym 'ip rate_map = "'ip \<rightharpoonup> int list"

definition RATE_LIMIT_WINDOW :: int where
  "RATE_LIMIT_WINDOW = 60 * 1000"

definition RATE_LIMIT_MAX :: nat where
  "RATE_LIMIT_MAX = 3"

text \<open>
  \<^verbatim>\<open>checkRateLimit(ip)\<close>, the same text in the retrying and in the rate-limited simple
  version. \<^verbatim>\<open>rateLimitMap.get(ip) || []\<close> is the stored array, or a new empty one
  when the key is absent; \<^verbatim>\<open>filter\<close> builds a new array, so the stored one changes
  only through \<^verbatim>\<open>rateLimitMap.set\<close>. The result is the returned boolean and the map
  after the call.
\<close>

definition checkRateLimit :: "int \<Rightarrow> 'ip \<Rightarrow> 'ip rate_map \<Rightarrow> bool \<times> 'ip rate_map" where
  "checkRateLimit now ip rateLimitMap =
     (let userRequests = (case rateLimitMap ip of None \<Rightarrow> [] | Some l \<Rightarrow> l);
          recentRequests = filter (\<lambda>time. now - time < RATE_LIMIT_WINDOW) userRequests
      in if RATE_LIMIT_MAX \<le> length recentRequests then (False, rateLimitMap)
         else (True, rateLimitMap(ip \<mapsto> recentRequests @ [now])))"

text \<open>A history of calls \<open>(now, ip)\<close>, run in order from a given map.\<close>

fun rate_calls :: "(int \<times> 'ip) list \<Rightarrow> 'ip rate_map \<Rightarrow> 'ip rate_map" where
  "rate_calls [] m = m"
| "rate_calls (c # cs) m = rate_calls cs (snd (checkRateLimit (fst c) (snd c) m))"

subsection \<open>Strings\<close>

text \<open>\<^verbatim>\<open>s.startsWith(p)\<close> and \<^verbatim>\<open>s.includes(sub)\<close> (a substring test; \<open>includes\<close> is a keyword
  here, hence the name \<open>str_includes\<close>).\<close>

fun startsWith :: "string \<Rightarrow> string \<Rightarrow> bool" where
  "startsWith s [] = True"
| "startsWith [] (p # ps) = False"
| "startsWith (c # cs) (p # ps) = (c = p \<and> startsWith cs ps)"

fun str_includes :: "string \<Rightarrow> string \<Rightarrow> bool" where
  "str_includes [] sub = (sub = [])"
| "str_includes (c # cs) sub = (startsWith (c # cs) sub \<or> str_includes cs sub)"

text \<open>A natural number inside a template literal (\<^verbatim>\<open>`${attempt}`\<close>).\<close>

function string_of_nat :: "nat \<Rightarrow> string" where
  "string_of_nat n =
     (if n < 10 then [''0123456789'' ! n]
      else string_of_nat (n div 10) @ [''0123456789'' ! (n mod 10)])"
  by pat_completeness auto
termination
  by (relation "measure id") auto

subsection \<open>The progress pattern\<close>

text \<open>
  \<^verbatim>\<open>/\[download\]\s+(\d+\.\d+)%/\<close>. \<^verbatim>\<open>\d\<close> is an ASCII digit; \<^verbatim>\<open>\s\<close> is, among the
  code units below 256, tab, line feed, vertical tab, form feed, carriage return, space
  and no-break space.
\<close>

definition is_digit :: "char \<Rightarrow> bool" where
  "is_digit c = (c \<in> set ''0123456789'')"

definition is_space :: "char \<Rightarrow> bool" where
  "is_space c =
     (c \<in> set [CHR 0x09, CHR 0x0A, CHR 0x0B, CHR 0x0C, CHR 0x0D, CHR '' '', CHR 0xA0])"

text \<open>
  The pattern anchored at the start of a string, in two parts: \<open>match_number\<close> is
  \<^verbatim>\<open>(\d+\.\d+)%\<close> and gives capture group 1; \<open>match_at\<close> puts the literal
  \<^verbatim>\<open>[download]\<close> and \<^verbatim>\<open>\s+\<close> before it. Each greedy run (\<^verbatim>\<open>\s+\<close>,
  \<^verbatim>\<open>\d+\<close>) is followed by a pattern item that no character of the run matches, so
  a shorter run never lets the rest match: backtracking finds nothing that the longest
  runs do not.
\<close>

definition match_number :: "string \<Rightarrow> string option" where
  "match_number r =
     (let d1 = takeWhile is_digit r;
          r3 = dropWhile is_digit r
      in if d1 = [] then None
         else
           (case r3 of
              [] \<Rightarrow> None
            | c # r4 \<Rightarrow>
                if c \<noteq> CHR ''.'' then None
                else
                  let d2 = takeWhile is_digit r4;
                      r5 = dropWhile is_digit r4
                  in if d2 = [] then None
                     else
                       (case r5 of
                          [] \<Rightarrow> None
                        | p # _ \<Rightarrow> if p = CHR ''%'' then Some (d1 @ ''.'' @ d2) else None)))"

definition match_at :: "string \<Rightarrow> string option" where
  "match_at s =
     (if \<not> startsWith s ''[download]'' then None
      else
        let r1 = drop (length ''[download]'') s
        in if takeWhile is_space r1 = [] then None
           else match_number (dropWhile is_space r1))"

text \<open>\<^verbatim>\<open>output.match(re)\<close> without the \<^verbatim>\<open>g\<close> flag: the leftmost match.\<close>

fun progressMatch :: "string \<Rightarrow> string option" where
  "progressMatch [] = match_at []"
| "progressMatch (c # cs) =
     (case match_at (c # cs) of Some m \<Rightarrow> Some m | None \<Rightarrow> progressMatch cs)"

text \<open>
  \<^verbatim>\<open>parseFloat\<close> on a capture, which has the form digits, point, digits: the number
  the decimal denotes. JavaScript rounds it to the nearest binary64 value, which for a
  decimal such as 42.5 (a multiple of a power of two) is the number itself; the rounding
  is not modelled, so for a capture that binary64 does not hold exactly the value here
  is the decimal's and not the rounded one.
\<close>

definition digit_val :: "char \<Rightarrow> nat" where
  "digit_val c = length (takeWhile (\<lambda>d. d \<noteq> c) ''0123456789'')"

definition nat_of_digits :: "string \<Rightarrow> nat" where
  "nat_of_digits ds = foldl (\<lambda>a c. 10 * a + digit_val c) 0 ds"

definition parseFloat :: "string \<Rightarrow> rat" where
  "parseFloat s =
     (let ip = takeWhile (\<lambda>c. c \<noteq> CHR ''.'') s;
          fp = drop 1 (dropWhile (\<lambda>c. c \<noteq> CHR ''.'') s)
      in of_nat (nat_of_digits ip) + of_nat (nat_of_digits fp) / 10 ^ length fp)"

subsection \<open>JSON values and the WebSocket fan-out\<close>

datatype json = JStr string | JNum rat | JArr "json list" | JObj "(string \<times> json) list"


record ws_client =
  sock :: nat
  readyState :: nat

text \<open>
  \<^verbatim>\<open>wss.clients.forEach(client => { if (client.readyState === 1)
  client.send(JSON.stringify(ev)) })\<close>, the loop every handler repeats: the messages
  it sends, as pairs of the socket and the object that is serialised.
\<close>

definition broadcast :: "json \<Rightarrow> ws_client list \<Rightarrow> (nat \<times> json) list" where
  "broadcast ev cs = map (\<lambda>c. (sock c, ev)) (filter (\<lambda>c. readyState c = 1) cs)"

subsection \<open>The HTTP response object\<close>

datatype body_part = Bytes string | Text string | Json json

record response =
  statusCode :: nat
  headers :: "(string \<times> string) list"
  headersSent :: bool
  body :: "body_part list"
  finished :: bool

datatype js_error = ERR_HTTP_HEADERS_SENT | ERR_INVALID_CHAR | TypeError

text \<open>
  The response of Node's \<^verbatim>\<open>http\<close> module and of Express, as far as the handlers
  use it. The response of a new request has status 200 and nothing sent.
  \<^verbatim>\<open>res.headersSent\<close> is true from the first \<^verbatim>\<open>write\<close>, \<^verbatim>\<open>end\<close>,
  \<^verbatim>\<open>send\<close> or \<^verbatim>\<open>json\<close> on: the first of them flushes the header block.
  \<^verbatim>\<open>setHeader\<close> throws once the headers are sent, and otherwise when the value
  has a character that a header may not hold: a control character other than the tab
  (the code units of a string here are below 256, so above the controls only 127 is
  refused). \<^verbatim>\<open>send\<close> and \<^verbatim>\<open>json\<close> write their payload and end the response;
  the source calls them on a new response or under the guard \<^verbatim>\<open>!res.headersSent\<close>
  only. A chunk written after the end is dropped.
\<close>

definition invalid_header_char :: "char \<Rightarrow> bool" where
  "invalid_header_char c =
     (c \<in> set [CHR 0x00, CHR 0x01, CHR 0x02, CHR 0x03, CHR 0x04, CHR 0x05, CHR 0x06, CHR 0x07,
                CHR 0x08, CHR 0x0A, CHR 0x0B, CHR 0x0C, CHR 0x0D, CHR 0x0E, CHR 0x0F, CHR 0x10,
                CHR 0x11, CHR 0x12, CHR 0x13, CHR 0x14, CHR 0x15, CHR 0x16, CHR 0x17, CHR 0x18,
                CHR 0x19, CHR 0x1A, CHR 0x1B, CHR 0x1C, CHR 0x1D, CHR 0x1E, CHR 0x1F, CHR 0x7F])"

definition fresh_res :: response where
  "fresh_res = \<lparr>statusCode = 200, headers = [], headersSent = False, body = [], finished = False\<rparr>"

definition res_setHeader :: "string \<Rightarrow> string \<Rightarrow> response \<Rightarrow> js_error + response" where
  "res_setHeader k v r =
     (if headersSent r then Inl ERR_HTTP_HEADERS_SENT
      else if list_ex invalid_header_char v then Inl ERR_INVALID_CHAR
      else Inr (r\<lparr>headers := AList.update k v (headers r)\<rparr>))"

definition res_write :: "string \<Rightarrow> response \<Rightarrow> response" where
  "res_write d r =
     (if finished r then r else r\<lparr>headersSent := True, body := body r @ [Bytes d]\<rparr>)"

definition res_end :: "response \<Rightarrow> response" where
  "res_end r = r\<lparr>headersSent := True, finished := True\<rparr>"

definition res_status :: "nat \<Rightarrow> response \<Rightarrow> response" where
  "res_status n r = r\<lparr>statusCode := n\<rparr>"

definition res_send :: "string \<Rightarrow> response \<Rightarrow> response" where
  "res_send s r = r\<lparr>headersSent := True, body := body r @ [Text s], finished := True\<rparr>"

definition res_json :: "json \<Rightarrow> response \<Rightarrow> response" where
  "res_json j r = r\<lparr>headersSent := True, body := body r @ [Json j], finished := True\<rparr>"

subsection \<open>Server state\<close>

record download_entry =
  e_process :: nat
  e_progress :: rat
  e_attempt :: "nat option"

record metadata =
  md_title :: string
  md_duration :: int
  md_uploader :: string

text \<open>
  The module-level state: the three \<^verbatim>\<open>Map\<close>s (\<^verbatim>\<open>activeDownloads\<close> and
  \<^verbatim>\<open>metadataCache\<close> as association lists in insertion order, with
  \<^verbatim>\<open>Map.set\<close> replacing the value of a key that is present), the sockets of
  \<^verbatim>\<open>wss.clients\<close>, and two logs: the subprocesses spawned (command and argument
  list; the index in the log is the handle stored as \<^verbatim>\<open>process\<close>) and the
  WebSocket messages sent. Console output is not modelled.
\<close>

record 'ip world =
  activeDownloads :: "(string \<times> download_entry) list"
  rateLimitMap :: "'ip rate_map"
  metadataCache :: "(string \<times> metadata) list"
  clients :: "ws_client list"
  spawned :: "(string \<times> string list) list"
  sent :: "(nat \<times> json) list"

definition Map_set :: "'k \<Rightarrow> 'v \<Rightarrow> ('k \<times> 'v) list \<Rightarrow> ('k \<times> 'v) list" where
  "Map_set k v m = AList.update k v m"

definition Map_delete :: "'k \<Rightarrow> ('k \<times> 'v) list \<Rightarrow> ('k \<times> 'v) list" where
  "Map_delete k m = AList.delete k m"

definition Map_get :: "'k \<Rightarrow> ('k \<times> 'v) list \<Rightarrow> 'v option" where
  "Map_get k m = map_of m k"

definition Map_has :: "'k \<Rightarrow> ('k \<times> 'v) list \<Rightarrow> bool" where
  "Map_has k m = (map_of m k \<noteq> None)"

definition send_all :: "json \<Rightarrow> 'ip world \<Rightarrow> 'ip world" where
  "send_all ev w = w\<lparr>sent := sent w @ broadcast ev (clients w)\<rparr>"

definition spawn :: "string \<Rightarrow> string list \<Rightarrow> 'ip world \<Rightarrow> nat \<times> 'ip world" where
  "spawn cmd args w = (length (spawned w), w\<lparr>spawned := spawned w @ [(cmd, args)]\<rparr>)"

text \<open>
  Start-up constants: \<^verbatim>\<open>YT_DLP_CMD\<close> and the path \<^verbatim>\<open>setupCookies()\<close> returns.
\<close>

record config =
  YT_DLP_CMD :: string
  cookiesPath :: string

text \<open>
  A request, as far as the download handlers read it: \<^verbatim>\<open>req.query.id\<close> (absent, or
  a string) and \<^verbatim>\<open>req.ip || req.connection.remoteAddress\<close>. \<^verbatim>\<open>!id\<close> holds for
  an absent and for an empty value.
\<close>

record 'ip request =
  query_id :: "string option"
  clientIP :: 'ip

definition falsy :: "string option \<Rightarrow> bool" where
  "falsy q = (case q of None \<Rightarrow> True | Some s \<Rightarrow> s = [])"

definition watch_url :: "string \<Rightarrow> string" where
  "watch_url vid = ''https://www.youtube.com/watch?v='' @ vid"

subsection \<open>Classifying a chunk of diagnostic text\<close>

record classification =
  phase :: string
  color :: string
  stepNumber :: nat
  totalSteps :: nat
  message :: string

definition step_message :: "nat \<Rightarrow> nat \<Rightarrow> string \<Rightarrow> string" where
  "step_message step steps what = string_of_nat step @ ''/'' @ string_of_nat steps @ '' '' @ what"

text \<open>
  The \<^verbatim>\<open>if\<close>/\<^verbatim>\<open>else if\<close> chain of the \<^verbatim>\<open>stderr\<close> handler, the same text in the
  three versions up to the fifth test. The second component is \<^verbatim>\<open>progressMatch\<close>,
  which only the fifth branch computes; what a handler does with a match differs between
  the versions and is part of each handler below. Without a match the fifth branch
  leaves \<^verbatim>\<open>message\<close> at its initial value.
\<close>

definition classify :: "string \<Rightarrow> classification \<times> string option" where
  "classify output =
     (if str_includes output ''Extracting URL'' then
        (\<lparr>phase = ''extracting'', color = ''#ff6b6b'', stepNumber = 1, totalSteps = 5,
          message = step_message 1 5 ''Extracting...''\<rparr>, None)
      else if str_includes output ''Downloading webpage'' then
        (\<lparr>phase = ''webpage'', color = ''#ffa500'', stepNumber = 2, totalSteps = 5,
          message = step_message 2 5 ''Getting webpage...''\<rparr>, None)
      else if str_includes output ''Downloading android'' \<or> str_includes output ''player API'' then
        (\<lparr>phase = ''api'', color = ''#ffff00'', stepNumber = 3, totalSteps = 5,
          message = step_message 3 5 ''Getting API...''\<rparr>, None)
      else if str_includes output ''Downloading m3u8'' \<or> str_includes output ''information'' then
        (\<lparr>phase = ''info'', color = ''#87ceeb'', stepNumber = 4, totalSteps = 5,
          message = step_message 4 5 ''Getting stream info...''\<rparr>, None)
      else if str_includes output ''[download]'' \<and> str_includes output ''%'' then
        (\<lparr>phase = ''downloading'', color = ''#00ff00'', stepNumber = 5, totalSteps = 5,
          message = ''0/5 Preparing...''\<rparr>, progressMatch output)
      else
        (\<lparr>phase = ''preparing'', color = ''#ff6b6b'', stepNumber = 0, totalSteps = 5,
          message = ''0/5 Preparing...''\<rparr>, None))"

subsection \<open>The retrying version\<close>

definition maxAttempts :: nat where
  "maxAttempts = 3"

text \<open>The argument list of each attempt (\<^verbatim>\<open>attempt === 1\<close>, \<^verbatim>\<open>=== 2\<close>, else).\<close>

definition attempt_args :: "config \<Rightarrow> string \<Rightarrow> nat \<Rightarrow> string list" where
  "attempt_args cfg vid attempt =
     (if attempt = 1 then
        [''--cookies'', cookiesPath cfg,
         ''-f'', ''bestaudio[ext=webm]/bestaudio[ext=m4a]/bestaudio'',
         ''--no-warnings'', ''--progress'', ''--newline'',
         ''--extractor-args'', ''youtube:player_client=android,web'',
         ''--user-agent'', ''Mozilla/5.0 (Linux; Android 10; SM-G973F) AppleWebKit/537.36 (KHTML, like Gecko) Chrome/120.0.0.0 Mobile Safari/537.36'',
         ''--geo-bypass'', ''--socket-timeout'', ''30'',
         ''--no-playlist'', watch_url vid, ''-o'', ''-'']
      else if attempt = 2 then
        [''--cookies'', cookiesPath cfg,
         ''-f'', ''bestaudio[ext=webm]/bestaudio[ext=m4a]/bestaudio'',
         ''--no-warnings'', ''--progress'', ''--newline'',
         ''--extractor-args'', ''youtube:player_client=ios,web'',
         ''--user-agent'', ''Mozilla/5.0 (iPhone; CPU iPhone OS 15_0 like Mac OS X) AppleWebKit/605.1.15 (KHTML, like Gecko) Version/15.0 Mobile/15E148 Safari/604.1'',
         ''--geo-bypass'', ''--socket-timeout'', ''30'',
         ''--no-playlist'', watch_url vid, ''-o'', ''-'']
      else
        [''--cookies'', cookiesPath cfg,
         ''-f'', ''bestaudio'', ''--no-warnings'', ''--progress'', ''--newline'',
         ''--extractor-args'', ''youtube:player_client=web'',
         ''--user-agent'', ''Mozilla/5.0 (Windows NT 10.0; Win64; x64) AppleWebKit/537.36 (KHTML, like Gecko) Chrome/120.0.0.0 Safari/537.36'',
         ''--no-playlist'', watch_url vid, ''-o'', ''-''])"

text \<open>
  The strategy of an attempt: its player-client, user-agent and format arguments. In
  each of the three lists they are the entries 8, 10 and 3, after
  \<^verbatim>\<open>--extractor-args\<close>, \<^verbatim>\<open>--user-agent\<close> and \<^verbatim>\<open>-f\<close> at 7, 9 and 2.
\<close>

definition strategy :: "config \<Rightarrow> string \<Rightarrow> nat \<Rightarrow> string \<times> string \<times> string" where
  "strategy cfg vid attempt =
     (let args = attempt_args cfg vid attempt in (args ! 8, args ! 10, args ! 3))"

text \<open>The variables a running attempt closes over.\<close>

record attempt_ctx =
  ctx_id :: string
  ctx_attempt :: nat
  hasData :: bool
  errorOutput :: string

text \<open>
  \<^verbatim>\<open>tryDownloadWithFallbacks(id, res, attempt)\<close> up to the registration of the
  handlers: the spawn, the entry in \<^verbatim>\<open>activeDownloads\<close>, the two headers. When
  \<^verbatim>\<open>setHeader\<close> throws, the promise is rejected and no handler is registered; the
  spawn and the entry have happened by then.
\<close>

definition tryDownloadWithFallbacks ::
  "config \<Rightarrow> string \<Rightarrow> nat \<Rightarrow> response \<Rightarrow> 'ip world \<Rightarrow> (js_error + attempt_ctx) \<times> response \<times> 'ip world" where
  "tryDownloadWithFallbacks cfg vid attempt res w =
     (let args = attempt_args cfg vid attempt;
          (ytdlp, w1) = spawn (YT_DLP_CMD cfg) args w;
          w2 = w1\<lparr>activeDownloads :=
                 Map_set vid \<lparr>e_process = ytdlp, e_progress = 0, e_attempt = Some attempt\<rparr>
                   (activeDownloads w1)\<rparr>
      in case res_setHeader ''Content-Type'' ''audio/webm'' res of
           Inl e \<Rightarrow> (Inl e, res, w2)
         | Inr r1 \<Rightarrow>
             (case res_setHeader ''Content-Disposition''
                     (''attachment; filename='' @ [CHR 0x22] @ vid @ ''.webm'' @ [CHR 0x22]) r1 of
                Inl e \<Rightarrow> (Inl e, r1, w2)
              | Inr r2 \<Rightarrow>
                  (Inr \<lparr>ctx_id = vid, ctx_attempt = attempt, hasData = False, errorOutput = []\<rparr>,
                   r2, w2)))"

text \<open>\<^verbatim>\<open>ytdlp.stdout.on('data', ...)\<close>.\<close>

definition stdout_data_retrying :: "string \<Rightarrow> attempt_ctx \<Rightarrow> response \<Rightarrow> attempt_ctx \<times> response" where
  "stdout_data_retrying d ctx res =
     (ctx\<lparr>hasData := True\<rparr>, if \<not> headersSent res then res_write d res else res)"

text \<open>
  \<^verbatim>\<open>ytdlp.stderr.on("data", ...)\<close>. On a match the message built for it is never
  read (the handler returns after the broadcast), so it is left out.
  \<^verbatim>\<open>activeDownloads.get(id).progress = progress\<close> throws a \<^verbatim>\<open>TypeError\<close> when the
  map has no entry for the identifier.
\<close>

definition stderr_data_retrying ::
  "string \<Rightarrow> attempt_ctx \<Rightarrow> 'ip world \<Rightarrow> js_error + (attempt_ctx \<times> 'ip world)" where
  "stderr_data_retrying output ctx w =
     (let ctx' = ctx\<lparr>errorOutput := errorOutput ctx @ output\<rparr>;
          (c, progressMatch) = classify output
      in case progressMatch of
           Some cap \<Rightarrow>
             (let progress = parseFloat cap
              in case Map_get (ctx_id ctx) (activeDownloads w) of
                   None \<Rightarrow> Inl TypeError
                 | Some e \<Rightarrow>
                     Inr (ctx',
                       send_all
                         (JObj [(''type'', JStr ''progress''), (''videoId'', JStr (ctx_id ctx)),
                                (''phase'', JStr (phase c)), (''percent'', JNum progress)])
                         (w\<lparr>activeDownloads :=
                              Map_set (ctx_id ctx) (e\<lparr>e_progress := progress\<rparr>)
                                (activeDownloads w)\<rparr>)))
         | None \<Rightarrow>
             Inr (ctx',
               send_all
                 (JObj [(''type'', JStr ''phase''), (''id'', JStr (ctx_id ctx)),
                        (''phase'', JStr (phase c)), (''color'', JStr (color c)),
                        (''message'', JStr (''Attempt '' @ string_of_nat (ctx_attempt ctx) @ '': ''
                            @ message c))])
                 w))"

text \<open>
  How a handler leaves the promise: resolved, rejected, or a timer set
  (\<^verbatim>\<open>setTimeout(..., delay)\<close>) that calls \<^verbatim>\<open>tryDownloadWithFallbacks\<close> with the
  given attempt number.
\<close>

datatype settle = Resolve | Reject string | Retry nat nat

text \<open>
  \<^verbatim>\<open>ytdlp.on("close", (code) => ...)\<close>; \<open>code\<close> is \<open>None\<close> for \<^verbatim>\<open>null\<close> (the
  subprocess was ended by a signal).
\<close>

definition close_retrying ::
  "int option \<Rightarrow> attempt_ctx \<Rightarrow> response \<Rightarrow> 'ip world \<Rightarrow> settle \<times> response \<times> 'ip world" where
  "close_retrying code ctx res w =
     (let vid = ctx_id ctx;
          attempt = ctx_attempt ctx;
          w1 = w\<lparr>activeDownloads := Map_delete vid (activeDownloads w)\<rparr>
      in if code = Some 0 \<and> hasData ctx then
           (Resolve,
            (if \<not> headersSent res then res_end res else res),
            send_all
              (JObj [(''type'', JStr ''complete''), (''id'', JStr vid),
                     (''message'', JStr (''Download completed! (Attempt '' @ string_of_nat attempt @ '')''))])
              w1)
         else if attempt < maxAttempts \<and>
                 (str_includes (errorOutput ctx) ''Sign in to confirm'' \<or>
                  str_includes (errorOutput ctx) ''bot'' \<or>
                  code = Some 1) then
           (Retry 2000 (attempt + 1),
            res,
            send_all
              (JObj [(''type'', JStr ''phase''), (''id'', JStr vid), (''phase'', JStr ''retrying''),
                     (''color'', JStr ''#ffa500''),
                     (''message'', JStr (''Attempt '' @ string_of_nat attempt
                         @ '' failed, trying different method...''))])
              w1)
         else
           (Reject ''All attempts failed'',
            (if \<not> headersSent res then
               res_json
                 (JObj [(''error'', JStr ''Download failed''),
                        (''message'', JStr (''All '' @ string_of_nat maxAttempts
                            @ '' attempts failed. YouTube may be temporarily blocking requests.'')),
                        (''attempts'', JNum (of_nat maxAttempts))])
                 (res_status 500 res)
             else res),
            send_all
              (JObj [(''type'', JStr ''error''), (''id'', JStr vid),
                     (''message'', JStr (''Download failed after '' @ string_of_nat maxAttempts
                         @ '' attempts. YouTube may be blocking requests.'')),
                     (''error'', JStr ''all_attempts_failed'')])
              w1))"

text \<open>\<^verbatim>\<open>ytdlp.on("error", (err) => ...)\<close>; \<open>err\<close> is \<^verbatim>\<open>err.message\<close>.\<close>

definition error_retrying ::
  "string \<Rightarrow> attempt_ctx \<Rightarrow> response \<Rightarrow> 'ip world \<Rightarrow> settle \<times> response \<times> 'ip world" where
  "error_retrying err ctx res w =
     (let w1 = w\<lparr>activeDownloads := Map_delete (ctx_id ctx) (activeDownloads w)\<rparr>
      in if ctx_attempt ctx < maxAttempts then (Retry 2000 (ctx_attempt ctx + 1), res, w1)
         else
           (Reject err,
            (if \<not> headersSent res then
               res_json (JObj [(''error'', JStr ''Download failed''), (''message'', JStr err)])
                 (res_status 500 res)
             else res),
            w1))"

text \<open>
  \<^verbatim>\<open>app.get("/download", ...)\<close> up to the \<^verbatim>\<open>await\<close>. The first component is
  \<open>None\<close> when the handler returned before starting a download, and otherwise what
  the first attempt's start gave.
\<close>

definition rate_limit_reply :: json where
  "rate_limit_reply =
     JObj [(''error'', JStr ''Rate limit exceeded. Please wait before downloading again.''),
           (''retryAfter'', JNum 60)]"

definition download_handler_retrying ::
  "config \<Rightarrow> int \<Rightarrow> 'ip request \<Rightarrow> 'ip world \<Rightarrow> (js_error + attempt_ctx) option \<times> response \<times> 'ip world" where
  "download_handler_retrying cfg now req w =
     (if falsy (query_id req) then (None, res_send ''video id required'' fresh_res, w)
      else
        let vid = (case query_id req of Some s \<Rightarrow> s | None \<Rightarrow> []);
            (allowed, rl) = checkRateLimit now (clientIP req) (rateLimitMap w);
            w1 = w\<lparr>rateLimitMap := rl\<rparr>
        in if \<not> allowed then (None, res_json rate_limit_reply (res_status 429 fresh_res), w1)
           else
             (case tryDownloadWithFallbacks cfg vid 1 fresh_res w1 of
                (r, res, w2) \<Rightarrow> (Some r, res, w2)))"

subsection \<open>The simple version\<close>

text \<open>
  \<^verbatim>\<open>ytdlp.stdout.pipe(res)\<close>: each chunk read from the subprocess's standard output
  is written to the response, and the response is ended when that stream ends.
\<close>

definition pipe_data :: "string \<Rightarrow> response \<Rightarrow> response" where
  "pipe_data d res = res_write d res"

definition pipe_end :: "response \<Rightarrow> response" where
  "pipe_end res = res_end res"

definition metadata_args :: "string \<Rightarrow> string list" where
  "metadata_args vid =
     [''--print'', ''%(title)s|||%(duration)s|||%(uploader)s'', ''--no-warnings'',
      ''--no-playlist'', watch_url vid]"

definition download_args_simple :: "string \<Rightarrow> string list" where
  "download_args_simple vid =
     [''-f'', ''bestaudio'', ''--no-warnings'', ''--progress'', ''--newline'',
      ''--concurrent-fragments'', ''4'', ''--limit-rate'', ''10M'', ''--no-playlist'',
      watch_url vid, ''-o'', ''-'']"

text \<open>
  \<^verbatim>\<open>app.get("/download", ...)\<close> of the simple version, up to the registration of the
  handlers. The first component is \<open>None\<close> when the handler returned before spawning,
  and otherwise the identifier the handlers close over (or the error thrown).
\<close>

definition download_handler_simple ::
  "config \<Rightarrow> 'ip request \<Rightarrow> 'ip world \<Rightarrow> (js_error + string) option \<times> response \<times> 'ip world" where
  "download_handler_simple cfg req w =
     (if falsy (query_id req) then (None, res_send ''video id required'' fresh_res, w)
      else
        let vid = (case query_id req of Some s \<Rightarrow> s | None \<Rightarrow> []);
            w1 = (if \<not> Map_has vid (metadataCache w)
                  then snd (spawn (YT_DLP_CMD cfg) (metadata_args vid) w) else w);
            (ytdlp, w2) = spawn (YT_DLP_CMD cfg) (download_args_simple vid) w1;
            w3 = w2\<lparr>activeDownloads :=
                   Map_set vid \<lparr>e_process = ytdlp, e_progress = 0, e_attempt = None\<rparr>
                     (activeDownloads w2)\<rparr>
        in case res_setHeader ''Content-Type'' ''audio/webm'' fresh_res of
             Inl e \<Rightarrow> (Some (Inl e), fresh_res, w3)
           | Inr r1 \<Rightarrow>
               (case res_setHeader ''Content-Disposition''
                       (''attachment; filename='' @ [CHR 0x22] @ vid @ ''.webm'' @ [CHR 0x22]) r1 of
                  Inl e \<Rightarrow> (Some (Inl e), r1, w3)
                | Inr r2 \<Rightarrow> (Some (Inr vid), r2, w3)))"

text \<open>
  The \<^verbatim>\<open>stderr\<close> handler of the simple version. \<^verbatim>\<open>progress.toFixed(1)\<close> formats
  the binary64 value; it is the parameter \<open>toFixed1\<close>.
\<close>

definition stderr_data_simple ::
  "(rat \<Rightarrow> string) \<Rightarrow> string \<Rightarrow> string \<Rightarrow> 'ip world \<Rightarrow> 'ip world" where
  "stderr_data_simple toFixed1 vid output w =
     (let (c, progressMatch) = classify output
      in case progressMatch of
           Some cap \<Rightarrow>
             (let progress = parseFloat cap;
                  msg = ''Downloading: '' @ toFixed1 progress @ ''%'';
                  w1 = send_all
                         (JObj [(''type'', JStr ''progress''), (''id'', JStr vid),
                                (''progress'', JNum progress), (''phase'', JStr (phase c)),
                                (''color'', JStr (color c)), (''message'', JStr msg)])
                         w
              in case Map_get vid (activeDownloads w1) of
                   None \<Rightarrow> w1
                 | Some e \<Rightarrow>
                     w1\<lparr>activeDownloads :=
                          Map_set vid (e\<lparr>e_progress := progress\<rparr>) (activeDownloads w1)\<rparr>)
         | None \<Rightarrow>
             send_all
               (JObj [(''type'', JStr ''phase''), (''id'', JStr vid), (''phase'', JStr (phase c)),
                      (''color'', JStr (color c)), (''message'', JStr (message c))])
               w)"

text \<open>\<^verbatim>\<open>ytdlp.on("error", ...)\<close> and \<^verbatim>\<open>ytdlp.on("close", ...)\<close> of the simple version.\<close>

definition error_simple :: "string \<Rightarrow> response \<Rightarrow> 'ip world \<Rightarrow> response \<times> 'ip world" where
  "error_simple vid res w =
     (let w1 = w\<lparr>activeDownloads := Map_delete vid (activeDownloads w)\<rparr>;
          w2 = send_all
                 (JObj [(''type'', JStr ''error''), (''id'', JStr vid),
                        (''message'', JStr ''Download failed'')])
                 w1
      in (if \<not> headersSent res then res_send ''Download failed'' (res_status 500 res) else res, w2))"

definition close_simple ::
  "int option \<Rightarrow> string \<Rightarrow> response \<Rightarrow> 'ip world \<Rightarrow> response \<times> 'ip world" where
  "close_simple code vid res w =
     (let w1 = w\<lparr>activeDownloads := Map_delete vid (activeDownloads w)\<rparr>
      in if code = Some 0 then
           (res,
            send_all
              (JObj [(''type'', JStr ''complete''), (''id'', JStr vid),
                     (''message'', JStr ''Download complete!'')])
              w1)
         else (if \<not> headersSent res then res_send ''Download failed'' (res_status 500 res) else res, w1))"

subsection \<open>The simple version with the rate limiter\<close>


subsection \<open>Search\<close>

record video =
  v_id :: string
  v_title :: string
  v_duration :: int
  v_thumbnail :: "string option"

text \<open>
  One result as the handler projects it; \<^verbatim>\<open>v.thumbnail?.url\<close> is
  \<^verbatim>\<open>undefined\<close> for a result without a thumbnail, and the field is then absent from
  the JSON text.
\<close>

definition simplified :: "video \<Rightarrow> json" where
  "simplified v =
     JObj ([(''id'', JStr (v_id v)), (''title'', JStr (v_title v)),
            (''duration'', JNum (of_int (v_duration v div 1000)))]
           @ (case v_thumbnail v of None \<Rightarrow> [] | Some u \<Rightarrow> [(''thumbnail'', JStr u)]))"

text \<open>
  \<^verbatim>\<open>app.get("/search", ...)\<close>, the same text in the three versions. The provider
  (\<^verbatim>\<open>YouTube.search\<close>) is a parameter: from the query, the limit and the type to the
  results, or to the error it fails with. The second component of the result is the
  list of calls made to the provider. The query parameter is absent or a string.
\<close>

definition search_handler ::
  "(string \<Rightarrow> nat \<Rightarrow> string \<Rightarrow> string + video list) \<Rightarrow> string option \<Rightarrow>
   response \<times> (string \<times> nat \<times> string) list" where
  "search_handler provider q =
     (if falsy q then (res_json (JArr []) fresh_res, [])
      else
        let qs = (case q of Some s \<Rightarrow> s | None \<Rightarrow> [])
        in case provider qs 10 ''video'' of
             Inr results \<Rightarrow> (res_json (JArr (map simplified results)) fresh_res, [(qs, 10, ''video'')])
           | Inl e \<Rightarrow>
               (res_json (JObj [(''error'', JStr ''search_failed'')]) (res_status 500 fresh_res),
                [(qs, 10, ''video'')]))"

subsection \<open>The map of active downloads over time\<close>

definition one_entry_per_id :: "'ip world \<Rightarrow> bool" where
  "one_entry_per_id w = distinct (map fst (activeDownloads w))"

text \<open>
  The states a server can be in. It starts with an empty map of active downloads;
  sockets connect and disconnect; every other step is one of the handlers above, run
  with whatever arguments (any request, any chunk, any exit code, any attempt context),
  which covers every order in which the event loop can run them. A \<^verbatim>\<open>stderr\<close>
  handler of the retrying version that throws ends the process and gives no new state.
\<close>

inductive reachable_retrying :: "config \<Rightarrow> 'ip world \<Rightarrow> bool" for cfg :: config where
  start: "activeDownloads w = [] \<Longrightarrow> reachable_retrying cfg w"
| sockets: "reachable_retrying cfg w \<Longrightarrow> reachable_retrying cfg (w\<lparr>clients := cs\<rparr>)"
| request: "reachable_retrying cfg w \<Longrightarrow>
    reachable_retrying cfg (snd (snd (download_handler_retrying cfg now req w)))"
| retry: "reachable_retrying cfg w \<Longrightarrow>
    reachable_retrying cfg (snd (snd (tryDownloadWithFallbacks cfg vid attempt res w)))"
| stderr_data: "reachable_retrying cfg w \<Longrightarrow> stderr_data_retrying chunk ctx w = Inr (ctx', w') \<Longrightarrow>
    reachable_retrying cfg w'"
| closed: "reachable_retrying cfg w \<Longrightarrow>
    reachable_retrying cfg (snd (snd (close_retrying code ctx res w)))"
| failed: "reachable_retrying cfg w \<Longrightarrow>
    reachable_retrying cfg (snd (snd (error_retrying err ctx res w)))"

inductive reachable_simple :: "config \<Rightarrow> (rat \<Rightarrow> string) \<Rightarrow> 'ip world \<Rightarrow> bool"
  for cfg :: config and toFixed1 :: "rat \<Rightarrow> string" where
  start: "activeDownloads w = [] \<Longrightarrow> reachable_simple cfg toFixed1 w"
| sockets: "reachable_simple cfg toFixed1 w \<Longrightarrow> reachable_simple cfg toFixed1 (w\<lparr>clients := cs\<rparr>)"
| request: "reachable_simple cfg toFixed1 w \<Longrightarrow>
    reachable_simple cfg toFixed1 (snd (snd (download_handler_simple cfg req w)))"
| stderr_data: "reachable_simple cfg toFixed1 w \<Longrightarrow>
    reachable_simple cfg toFixed1 (stderr_data_simple toFixed1 vid chunk w)"
| closed: "reachable_simple cfg toFixed1 w \<Longrightarrow>
    reachable_simple cfg toFixed1 (snd (close_simple code vid res w))"
| failed: "reachable_simple cfg toFixed1 w \<Longrightarrow>
    reachable_simple cfg toFixed1 (snd (error_simple vid res w))"

section \<open>Properties\<close>

subsection \<open>Rate limiter\<close>

lemma checkRateLimit_rejected:
  "fst (checkRateLimit now ip m) = False \<Longrightarrow> snd (checkRateLimit now ip m) = m"
  by (simp add: checkRateLimit_def Let_def split: if_splits)

lemma checkRateLimit_bounded:
  assumes "\<And>k l. m k = Some l \<Longrightarrow> length l \<le> 3"
    and "snd (checkRateLimit now ip m) k = Some l"
  shows "length l \<le> 3"
  using assms
  by (auto simp: checkRateLimit_def Let_def RATE_LIMIT_MAX_def split: if_splits)

lemma rate_calls_bounded:
  "(\<And>k l. m k = Some l \<Longrightarrow> length l \<le> 3) \<Longrightarrow>
   rate_calls cs m k = Some l \<Longrightarrow> length l \<le> 3"
proof (induction cs arbitrary: m)
  case Nil
  then show ?case by simp
next
  case (Cons c cs)
  have step: "\<And>k l. snd (checkRateLimit (fst c) (snd c) m) k = Some l \<Longrightarrow> length l \<le> 3"
    using Cons.prems(1) checkRateLimit_bounded by metis
  from Cons.prems(2) have "rate_calls cs (snd (checkRateLimit (fst c) (snd c) m)) k = Some l"
    by simp
  then show ?case
    using Cons.IH [of "snd (checkRateLimit (fst c) (snd c) m)"] step by blast
qed

lemma checkRateLimit_spec:
  "checkRateLimit now ip m =
     (let recent = filter (\<lambda>t. now - t < 60000) (case m ip of None \<Rightarrow> [] | Some l \<Rightarrow> l)
      in if 3 \<le> length recent then (False, m) else (True, m(ip \<mapsto> recent @ [now])))"
  by (simp add: checkRateLimit_def RATE_LIMIT_WINDOW_def RATE_LIMIT_MAX_def Let_def)

lemma fourth_rejected:
  assumes "t1 \<le> t2" "t2 \<le> t3" "t3 \<le> t4" "t4 - t1 < 60000"
    and "checkRateLimit t1 ip m0 = (True, m1)"
    and "checkRateLimit t2 ip m1 = (True, m2)"
    and "checkRateLimit t3 ip m2 = (True, m3)"
  shows "checkRateLimit t4 ip m3 = (False, m3)"
proof -
  from assms(5) obtain r1 where m1: "m1 ip = Some (r1 @ [t1])"
    by (auto simp: checkRateLimit_spec Let_def split: if_splits)
  from assms(6) m1 assms(1-4) obtain r2 where m2: "m2 ip = Some (r2 @ [t1, t2])"
    by (auto simp: checkRateLimit_spec Let_def split: if_splits)
  from assms(7) m2 assms(1-4) obtain r3 where m3: "m3 ip = Some (r3 @ [t1, t2, t3])"
    by (auto simp: checkRateLimit_spec Let_def split: if_splits)
  from m3 assms(1-4) show ?thesis
    by (auto simp: checkRateLimit_spec Let_def)
qed

lemma after_window:
  assumes "\<forall>t \<in> set (case m ip of None \<Rightarrow> [] | Some l \<Rightarrow> l). 60000 \<le> now - t"
  shows "checkRateLimit now ip m = (True, m(ip \<mapsto> [now]))"
proof -
  have "filter (\<lambda>t. now - t < 60000) (case m ip of None \<Rightarrow> [] | Some l \<Rightarrow> l) = []"
    using assms by (auto simp: filter_empty_conv)
  then show ?thesis by (simp add: checkRateLimit_spec)
qed

lemma handler_429:
  assumes "\<not> falsy (query_id req)" "fst (checkRateLimit now (clientIP req) (rateLimitMap w)) = False"
  shows "download_handler_retrying cfg now req w =
     (None, res_json rate_limit_reply (res_status 429 fresh_res), w)"
proof -
  have "checkRateLimit now (clientIP req) (rateLimitMap w) = (False, rateLimitMap w)"
    using assms(2) checkRateLimit_rejected [of now "clientIP req" "rateLimitMap w"]
    by (simp add: prod_eq_iff)
  then show ?thesis using assms(1)
    by (simp add: download_handler_retrying_def)
qed

lemma handler_accept:
  assumes "\<not> falsy (query_id req)" "checkRateLimit now (clientIP req) (rateLimitMap w) = (True, rl)"
  shows "statusCode (fst (snd (download_handler_retrying cfg now req w))) = 200
     \<and> fst (download_handler_retrying cfg now req w) \<noteq> None
     \<and> length (spawned (snd (snd (download_handler_retrying cfg now req w)))) = Suc (length (spawned w))
     \<and> rateLimitMap (snd (snd (download_handler_retrying cfg now req w))) = rl"
  using assms
  by (simp add: download_handler_retrying_def Let_def tryDownloadWithFallbacks_def spawn_def
      res_setHeader_def fresh_res_def split: prod.splits)


text \<open>
  Claim C1, as stated, fails. The check counts the instants it recorded, which are those
  of accepted requests only, and it drops an instant that is exactly 60000 ms old. With
  requests at 1, 2 and 3 accepted, the request at 60000 is rejected and not recorded;
  those at 60005, 60006 and 60007 are accepted: of the four requests made from 60000 to
  60007 the fourth is answered with status 200, not 429. And with 0, 1 and 2 recorded,
  the request at 60000 is accepted, though none of the three is older than 60 seconds.
\<close>

theorem C1_counterexample:
  "checkRateLimit 1 ''a'' Map.empty = (True, [''a'' \<mapsto> [1]]) \<and>
   checkRateLimit 2 ''a'' [''a'' \<mapsto> [1]] = (True, [''a'' \<mapsto> [1, 2]]) \<and>
   checkRateLimit 3 ''a'' [''a'' \<mapsto> [1, 2]] = (True, [''a'' \<mapsto> [1, 2, 3]]) \<and>
   checkRateLimit 60000 ''a'' [''a'' \<mapsto> [1, 2, 3]] = (False, [''a'' \<mapsto> [1, 2, 3]]) \<and>
   checkRateLimit 60005 ''a'' [''a'' \<mapsto> [1, 2, 3]] = (True, [''a'' \<mapsto> [60005]]) \<and>
   checkRateLimit 60006 ''a'' [''a'' \<mapsto> [60005]] = (True, [''a'' \<mapsto> [60005, 60006]]) \<and>
   checkRateLimit 60007 ''a'' [''a'' \<mapsto> [60005, 60006]]
     = (True, [''a'' \<mapsto> [60005, 60006, 60007]]) \<and>
   fst (download_handler_retrying \<lparr>YT_DLP_CMD = ''yt-dlp'', cookiesPath = ''c''\<rparr> 60007
       \<lparr>query_id = Some ''v'', clientIP = ''a''\<rparr>
       \<lparr>activeDownloads = [], rateLimitMap = [''a'' \<mapsto> [60005, 60006]], metadataCache = [],
        clients = [], spawned = [], sent = []\<rparr>)
     = Some (Inr \<lparr>ctx_id = ''v'', ctx_attempt = 1, hasData = False, errorOutput = []\<rparr>) \<and>
   statusCode (fst (snd (download_handler_retrying \<lparr>YT_DLP_CMD = ''yt-dlp'', cookiesPath = ''c''\<rparr>
       60007 \<lparr>query_id = Some ''v'', clientIP = ''a''\<rparr>
       \<lparr>activeDownloads = [], rateLimitMap = [''a'' \<mapsto> [60005, 60006]], metadataCache = [],
        clients = [], spawned = [], sent = []\<rparr>))) = 200 \<and>
   checkRateLimit 60000 ''a'' [''a'' \<mapsto> [0, 1, 2]] = (True, [''a'' \<mapsto> [1, 2, 60000]])"
  by (simp add: checkRateLimit_def RATE_LIMIT_WINDOW_def RATE_LIMIT_MAX_def
      download_handler_retrying_def falsy_def tryDownloadWithFallbacks_def spawn_def Map_set_def
      res_setHeader_def fresh_res_def Let_def invalid_header_char_def)

text \<open>
  Claim C1, amended. \<open>checkRateLimit\<close> keeps the recorded instants less than 60000 ms
  old and drops those 60000 ms old or older; with 3 or more of them left it returns false
  and the map as it was, and the download handler then answers 429 with the rate-limit
  payload; otherwise it stores the kept instants followed by the current one and returns
  true, and the handler starts a download. When three checks of one IP at instants
  \<open>t1 \<le> t2 \<le> t3\<close> were accepted, one after the other, a fourth at \<open>t4 \<ge> t3\<close>
  less than 60000 ms after \<open>t1\<close> is rejected. A check made when every recorded instant
  of the IP is at least 60000 ms old is accepted.
\<close>

theorem C1_rate_limit_window:
  "checkRateLimit now ip m =
     (let recent = filter (\<lambda>t. now - t < 60000) (case m ip of None \<Rightarrow> [] | Some l \<Rightarrow> l)
      in if 3 \<le> length recent then (False, m) else (True, m(ip \<mapsto> recent @ [now])))
   \<and> (\<not> falsy (query_id req) \<and> fst (checkRateLimit tr (clientIP req) (rateLimitMap w)) = False \<longrightarrow>
        download_handler_retrying cfg tr req w =
          (None, res_json rate_limit_reply (res_status 429 fresh_res), w))
   \<and> (\<not> falsy (query_id req) \<and> fst (checkRateLimit tr (clientIP req) (rateLimitMap w)) = True \<longrightarrow>
        statusCode (fst (snd (download_handler_retrying cfg tr req w))) = 200 \<and>
        fst (download_handler_retrying cfg tr req w) \<noteq> None \<and>
        rateLimitMap (snd (snd (download_handler_retrying cfg tr req w))) =
          snd (checkRateLimit tr (clientIP req) (rateLimitMap w)))
   \<and> (t1 \<le> t2 \<and> t2 \<le> t3 \<and> t3 \<le> t4 \<and> t4 - t1 < 60000 \<and>
        checkRateLimit t1 ip m0 = (True, m1) \<and> checkRateLimit t2 ip m1 = (True, m2) \<and>
        checkRateLimit t3 ip m2 = (True, m3) \<longrightarrow>
        checkRateLimit t4 ip m3 = (False, m3))
   \<and> ((\<forall>t \<in> set (case ma ip of None \<Rightarrow> [] | Some l \<Rightarrow> l). 60000 \<le> ta - t) \<longrightarrow>
        checkRateLimit ta ip ma = (True, ma(ip \<mapsto> [ta])))"
proof (intro conjI impI)
  show "checkRateLimit now ip m =
     (let recent = filter (\<lambda>t. now - t < 60000) (case m ip of None \<Rightarrow> [] | Some l \<Rightarrow> l)
      in if 3 \<le> length recent then (False, m) else (True, m(ip \<mapsto> recent @ [now])))"
    by (rule checkRateLimit_spec)
next
  assume "\<not> falsy (query_id req) \<and> fst (checkRateLimit tr (clientIP req) (rateLimitMap w)) = False"
  then show "download_handler_retrying cfg tr req w =
          (None, res_json rate_limit_reply (res_status 429 fresh_res), w)"
    using handler_429 by blast
next
  assume a: "\<not> falsy (query_id req) \<and> fst (checkRateLimit tr (clientIP req) (rateLimitMap w)) = True"
  then have "checkRateLimit tr (clientIP req) (rateLimitMap w)
      = (True, snd (checkRateLimit tr (clientIP req) (rateLimitMap w)))"
    by (simp add: prod_eq_iff)
  with a handler_accept [of req tr w "snd (checkRateLimit tr (clientIP req) (rateLimitMap w))" cfg]
  show "statusCode (fst (snd (download_handler_retrying cfg tr req w))) = 200"
    and "fst (download_handler_retrying cfg tr req w) \<noteq> None"
    and "rateLimitMap (snd (snd (download_handler_retrying cfg tr req w))) =
          snd (checkRateLimit tr (clientIP req) (rateLimitMap w))"
    by blast+
next
  assume "t1 \<le> t2 \<and> t2 \<le> t3 \<and> t3 \<le> t4 \<and> t4 - t1 < 60000 \<and>
        checkRateLimit t1 ip m0 = (True, m1) \<and> checkRateLimit t2 ip m1 = (True, m2) \<and>
        checkRateLimit t3 ip m2 = (True, m3)"
  then show "checkRateLimit t4 ip m3 = (False, m3)"
    using fourth_rejected [of t1 t2 t3 t4 ip m0 m1 m2 m3] by blast
next
  assume "\<forall>t \<in> set (case ma ip of None \<Rightarrow> [] | Some l \<Rightarrow> l). 60000 \<le> ta - t"
  then show "checkRateLimit ta ip ma = (True, ma(ip \<mapsto> [ta]))"
    by (rule after_window)
qed

theorem C1_witness:
  "checkRateLimit 0 ''a'' Map.empty = (True, [''a'' \<mapsto> [0]]) \<and>
   checkRateLimit 1 ''a'' [''a'' \<mapsto> [0]] = (True, [''a'' \<mapsto> [0, 1]]) \<and>
   checkRateLimit 2 ''a'' [''a'' \<mapsto> [0, 1]] = (True, [''a'' \<mapsto> [0, 1, 2]]) \<and>
   checkRateLimit 3 ''a'' [''a'' \<mapsto> [0, 1, 2]] = (False, [''a'' \<mapsto> [0, 1, 2]]) \<and>
   download_handler_retrying \<lparr>YT_DLP_CMD = ''yt-dlp'', cookiesPath = ''c''\<rparr> 3
       \<lparr>query_id = Some ''v'', clientIP = ''a''\<rparr>
       \<lparr>activeDownloads = [], rateLimitMap = [''a'' \<mapsto> [0, 1, 2]], metadataCache = [],
        clients = [], spawned = [], sent = []\<rparr>
     = (None, res_json rate_limit_reply (res_status 429 fresh_res),
        \<lparr>activeDownloads = [], rateLimitMap = [''a'' \<mapsto> [0, 1, 2]], metadataCache = [],
         clients = [], spawned = [], sent = []\<rparr>) \<and>
   checkRateLimit 60002 ''a'' [''a'' \<mapsto> [0, 1, 2]] = (True, [''a'' \<mapsto> [60002]]) \<and>
   statusCode (fst (snd (download_handler_retrying \<lparr>YT_DLP_CMD = ''yt-dlp'', cookiesPath = ''c''\<rparr>
       60002 \<lparr>query_id = Some ''v'', clientIP = ''a''\<rparr>
       \<lparr>activeDownloads = [], rateLimitMap = [''a'' \<mapsto> [0, 1, 2]], metadataCache = [],
        clients = [], spawned = [], sent = []\<rparr>))) = 200"
proof -
  have h1: "checkRateLimit 0 ''a'' Map.empty = (True, [''a'' \<mapsto> [0]])"
    and h2: "checkRateLimit 1 ''a'' [''a'' \<mapsto> [0]] = (True, [''a'' \<mapsto> [0, 1]])"
    and h3: "checkRateLimit 2 ''a'' [''a'' \<mapsto> [0, 1]] = (True, [''a'' \<mapsto> [0, 1, 2]])"
    by (simp_all add: checkRateLimit_def RATE_LIMIT_WINDOW_def RATE_LIMIT_MAX_def)
  note c1 = C1_rate_limit_window
    [of 3 "''a''" "[''a'' \<mapsto> [0, 1, 2]]"
        "\<lparr>query_id = Some ''v'', clientIP = ''a''\<rparr>" 3
        "\<lparr>activeDownloads = [], rateLimitMap = [''a'' \<mapsto> [0, 1, 2]], metadataCache = [],
          clients = [], spawned = [], sent = []\<rparr>"
        "\<lparr>YT_DLP_CMD = ''yt-dlp'', cookiesPath = ''c''\<rparr>"
        0 1 2 3 Map.empty "[''a'' \<mapsto> [0]]" "[''a'' \<mapsto> [0, 1]]" "[''a'' \<mapsto> [0, 1, 2]]"
        "[''a'' \<mapsto> [0, 1, 2]]" 60002]
  have r4: "checkRateLimit 3 ''a'' [''a'' \<mapsto> [0, 1, 2]] = (False, [''a'' \<mapsto> [0, 1, 2]])"
    using c1 h1 h2 h3 by simp
  have h429: "download_handler_retrying \<lparr>YT_DLP_CMD = ''yt-dlp'', cookiesPath = ''c''\<rparr> 3
       \<lparr>query_id = Some ''v'', clientIP = ''a''\<rparr>
       \<lparr>activeDownloads = [], rateLimitMap = [''a'' \<mapsto> [0, 1, 2]], metadataCache = [],
        clients = [], spawned = [], sent = []\<rparr>
     = (None, res_json rate_limit_reply (res_status 429 fresh_res),
        \<lparr>activeDownloads = [], rateLimitMap = [''a'' \<mapsto> [0, 1, 2]], metadataCache = [],
         clients = [], spawned = [], sent = []\<rparr>)"
    using c1 r4 by (simp add: falsy_def)
  have late: "checkRateLimit 60002 ''a'' [''a'' \<mapsto> [0, 1, 2]] = (True, [''a'' \<mapsto> [60002]])"
    using c1 by simp
  have ok: "statusCode (fst (snd (download_handler_retrying \<lparr>YT_DLP_CMD = ''yt-dlp'', cookiesPath = ''c''\<rparr>
       60002 \<lparr>query_id = Some ''v'', clientIP = ''a''\<rparr>
       \<lparr>activeDownloads = [], rateLimitMap = [''a'' \<mapsto> [0, 1, 2]], metadataCache = [],
        clients = [], spawned = [], sent = []\<rparr>))) = 200"
    using C1_rate_limit_window
      [where req = "\<lparr>query_id = Some ''v'', clientIP = ''a''\<rparr>" and tr = 60002
         and w = "\<lparr>activeDownloads = [], rateLimitMap = [''a'' \<mapsto> [0, 1, 2]], metadataCache = [],
            clients = [], spawned = [], sent = []\<rparr>"
         and cfg = "\<lparr>YT_DLP_CMD = ''yt-dlp'', cookiesPath = ''c''\<rparr>",
       THEN conjunct2, THEN conjunct2, THEN conjunct1] late
    by (simp add: falsy_def)
  from h1 h2 h3 r4 h429 late ok show ?thesis by blast
qed

subsection \<open>Retry decision of the retrying version\<close>

lemma strategy_1: "strategy cfg vid (Suc 0) = (''youtube:player_client=android,web'',
   ''Mozilla/5.0 (Linux; Android 10; SM-G973F) AppleWebKit/537.36 (KHTML, like Gecko) Chrome/120.0.0.0 Mobile Safari/537.36'',
   ''bestaudio[ext=webm]/bestaudio[ext=m4a]/bestaudio'')"
  unfolding strategy_def attempt_args_def Let_def by simp

lemma strategy_2: "strategy cfg vid 2 = (''youtube:player_client=ios,web'',
   ''Mozilla/5.0 (iPhone; CPU iPhone OS 15_0 like Mac OS X) AppleWebKit/605.1.15 (KHTML, like Gecko) Version/15.0 Mobile/15E148 Safari/604.1'',
   ''bestaudio[ext=webm]/bestaudio[ext=m4a]/bestaudio'')"
  unfolding strategy_def attempt_args_def Let_def by simp

lemma strategy_3: "strategy cfg vid 3 = (''youtube:player_client=web'',
   ''Mozilla/5.0 (Windows NT 10.0; Win64; x64) AppleWebKit/537.36 (KHTML, like Gecko) Chrome/120.0.0.0 Safari/537.36'',
   ''bestaudio'')"
  unfolding strategy_def attempt_args_def Let_def by simp

lemma strategy_fixed: "strategy cfg vid a = strategy cfg' vid' a"
proof (cases "a = 1")
  case True
  then show ?thesis using strategy_1 [of cfg vid] strategy_1 [of cfg' vid'] by simp
next
  case False
  show ?thesis
  proof (cases "a = 2")
    case True
    then show ?thesis using strategy_2 [of cfg vid] strategy_2 [of cfg' vid'] by simp
  next
    case False
    with \<open>a \<noteq> 1\<close> show ?thesis
      unfolding strategy_def attempt_args_def Let_def by simp
  qed
qed

lemma strategy_labels:
  "attempt_args cfg vid a ! 7 = ''--extractor-args'' \<and>
   attempt_args cfg vid a ! 9 = ''--user-agent'' \<and>
   attempt_args cfg vid a ! 2 = ''-f''"
  unfolding attempt_args_def by simp

lemma close_retry_iff:
  assumes "ctx_attempt ctx < 3" "\<not> (code = Some 0 \<and> hasData ctx)"
  shows "(fst (close_retrying code ctx res w) = Retry 2000 (ctx_attempt ctx + 1)) =
         (str_includes (errorOutput ctx) ''Sign in to confirm'' \<or>
          str_includes (errorOutput ctx) ''bot'' \<or> code = Some 1)"
  using assms by (auto simp: close_retrying_def Let_def maxAttempts_def)

lemma close_terminal:
  assumes "\<not> (code = Some 0 \<and> hasData ctx)"
    "\<not> (ctx_attempt ctx < 3 \<and> (str_includes (errorOutput ctx) ''Sign in to confirm'' \<or>
          str_includes (errorOutput ctx) ''bot'' \<or> code = Some 1))"
  shows "fst (close_retrying code ctx res w) = Reject ''All attempts failed''"
  using assms by (auto simp: close_retrying_def Let_def maxAttempts_def)

lemma close_retry_shape:
  assumes "fst (close_retrying code ctx res w) = Retry d n"
  shows "d = 2000 \<and> n = ctx_attempt ctx + 1 \<and> ctx_attempt ctx < 3"
  using assms by (auto simp: close_retrying_def Let_def maxAttempts_def split: if_splits)

text \<open>
  Claim C2, as stated, fails: the close handler treats an exit with code 0 and no
  standard output as a failure, and with the text \<open>bot\<close> in the diagnostics it
  retries, although the exit code is zero.
\<close>

theorem C2_counterexample:
  "fst (close_retrying (Some 0)
          \<lparr>ctx_id = ''v'', ctx_attempt = 1, hasData = False, errorOutput = ''bot''\<rparr>
          fresh_res
          \<lparr>activeDownloads = [], rateLimitMap = (Map.empty :: string rate_map), metadataCache = [],
           clients = [], spawned = [], sent = []\<rparr>) = Retry 2000 2
   \<and> \<not> (((Some 0 :: int option) \<noteq> Some 0 \<and>
          (str_includes ''bot'' ''Sign in to confirm'' \<or> str_includes ''bot'' ''bot''))
        \<or> (Some 0 :: int option) = Some 1)"
  by (simp add: close_retrying_def maxAttempts_def Let_def)


text \<open>
  Claim C2, amended. In the retrying version, for an attempt number below 3, a failed
  attempt (any close that is not exit code 0 with data received) is retried exactly
  when the accumulated diagnostic text contains \<open>Sign in to confirm\<close> or
  \<open>bot\<close>, or the exit code is 1; any other failure is terminal (the promise is
  rejected). Every retry the close handler schedules waits 2000 ms, carries the next
  attempt number, and is scheduled below attempt 3 only. The three attempts have
  pairwise different strategies (player client, user agent, format), already different
  in player client and user agent, and a strategy depends on the attempt number alone.
  (The error handler, which runs when the subprocess could not be spawned, retries below
  attempt 3 whatever the diagnostics, also after 2000 ms.)
\<close>

theorem C2_retry_decision:
  "(ctx_attempt ctx < 3 \<and> \<not> (code = Some 0 \<and> hasData ctx) \<longrightarrow>
      ((fst (close_retrying code ctx res w) = Retry 2000 (ctx_attempt ctx + 1)) =
         (str_includes (errorOutput ctx) ''Sign in to confirm'' \<or>
          str_includes (errorOutput ctx) ''bot'' \<or> code = Some 1)) \<and>
      (fst (close_retrying code ctx res w) \<noteq> Retry 2000 (ctx_attempt ctx + 1) \<longrightarrow>
         fst (close_retrying code ctx res w) = Reject ''All attempts failed''))
   \<and> (fst (close_retrying code ctx res w) = Retry d n \<longrightarrow>
         d = 2000 \<and> n = ctx_attempt ctx + 1 \<and> ctx_attempt ctx < 3)
   \<and> distinct [strategy cfg vid 1, strategy cfg vid 2, strategy cfg vid 3]
   \<and> distinct (map (\<lambda>a. (fst (strategy cfg vid a), fst (snd (strategy cfg vid a)))) [1, 2, 3])
   \<and> strategy cfg vid a = strategy cfg' vid' a
   \<and> attempt_args cfg vid a ! 7 = ''--extractor-args''
   \<and> attempt_args cfg vid a ! 9 = ''--user-agent''
   \<and> attempt_args cfg vid a ! 2 = ''-f''
   \<and> fst (error_retrying err ctx res w) =
       (if ctx_attempt ctx < 3 then Retry 2000 (ctx_attempt ctx + 1) else Reject err)"
proof (intro conjI impI)
  show "fst (error_retrying err ctx res w) =
       (if ctx_attempt ctx < 3 then Retry 2000 (ctx_attempt ctx + 1) else Reject err)"
    by (simp add: error_retrying_def Let_def maxAttempts_def)
next
  assume a: "ctx_attempt ctx < 3 \<and> \<not> (code = Some 0 \<and> hasData ctx)"
  then show iff: "(fst (close_retrying code ctx res w) = Retry 2000 (ctx_attempt ctx + 1)) =
         (str_includes (errorOutput ctx) ''Sign in to confirm'' \<or>
          str_includes (errorOutput ctx) ''bot'' \<or> code = Some 1)"
    using close_retry_iff by blast
  assume "fst (close_retrying code ctx res w) \<noteq> Retry 2000 (ctx_attempt ctx + 1)"
  with iff a show "fst (close_retrying code ctx res w) = Reject ''All attempts failed''"
    using close_terminal [of code ctx res w] by blast
next
  assume "fst (close_retrying code ctx res w) = Retry d n"
  then show "d = 2000" and "n = ctx_attempt ctx + 1" and "ctx_attempt ctx < 3"
    using close_retry_shape by blast+
next
  show "distinct [strategy cfg vid 1, strategy cfg vid 2, strategy cfg vid 3]"
    by (simp add: strategy_1 strategy_2 strategy_3)
  show "distinct (map (\<lambda>a. (fst (strategy cfg vid a), fst (snd (strategy cfg vid a)))) [1, 2, 3])"
    by (simp add: strategy_1 strategy_2 strategy_3)
  show "strategy cfg vid a = strategy cfg' vid' a"
    by (rule strategy_fixed)
  show "attempt_args cfg vid a ! 7 = ''--extractor-args''"
    and "attempt_args cfg vid a ! 9 = ''--user-agent''"
    and "attempt_args cfg vid a ! 2 = ''-f''"
    using strategy_labels by blast+
qed

theorem C2_witness:
  "fst (close_retrying (Some 2)
          \<lparr>ctx_id = ''v'', ctx_attempt = 1, hasData = False,
           errorOutput = ''ERROR: Sign in to confirm you are not a bot''\<rparr>
          fresh_res
          \<lparr>activeDownloads = [], rateLimitMap = (Map.empty :: string rate_map), metadataCache = [],
           clients = [], spawned = [], sent = []\<rparr>) = Retry 2000 2
   \<and> fst (close_retrying (Some 2)
          \<lparr>ctx_id = ''v'', ctx_attempt = 1, hasData = False, errorOutput = ''ERROR: unavailable''\<rparr>
          fresh_res
          \<lparr>activeDownloads = [], rateLimitMap = (Map.empty :: string rate_map), metadataCache = [],
           clients = [], spawned = [], sent = []\<rparr>) = Reject ''All attempts failed''"
proof -
  let ?w = "\<lparr>activeDownloads = [], rateLimitMap = (Map.empty :: string rate_map), metadataCache = [],
           clients = [], spawned = [], sent = []\<rparr>"
  have "fst (close_retrying (Some 2)
          \<lparr>ctx_id = ''v'', ctx_attempt = 1, hasData = False,
           errorOutput = ''ERROR: Sign in to confirm you are not a bot''\<rparr> fresh_res ?w) = Retry 2000 2"
    using C2_retry_decision [of "\<lparr>ctx_id = ''v'', ctx_attempt = 1, hasData = False,
           errorOutput = ''ERROR: Sign in to confirm you are not a bot''\<rparr>" "Some 2" fresh_res ?w,
        THEN conjunct1]
    by simp
  moreover have "fst (close_retrying (Some 2)
          \<lparr>ctx_id = ''v'', ctx_attempt = 1, hasData = False, errorOutput = ''ERROR: unavailable''\<rparr>
          fresh_res ?w) = Reject ''All attempts failed''"
    using C2_retry_decision [of "\<lparr>ctx_id = ''v'', ctx_attempt = 1, hasData = False,
           errorOutput = ''ERROR: unavailable''\<rparr>" "Some 2" fresh_res ?w,
        THEN conjunct1]
    by simp
  ultimately show ?thesis by blast
qed

subsection \<open>The progress pattern and the classifier\<close>

lemma startsWith_prefix: "startsWith s p = prefix p s"
  by (induction s p rule: startsWith.induct) auto

lemma str_includes_sublist: "str_includes s sub = sublist sub s"
  by (induction s) (auto simp: startsWith_prefix sublist_Cons_right)

lemma text_match_at: "match_at (''[download]  42.5%'' @ rest) = Some ''42.5''"
  by (simp add: match_at_def match_number_def is_space_def is_digit_def)

lemma startsWith_append_other:
  "y \<notin> set p \<Longrightarrow> startsWith (s @ y # ys) p = startsWith s p"
  by (induction s p rule: startsWith.induct) auto

lemma startsWith_bracket:
  assumes "s \<noteq> []"
  shows "startsWith (s @ CHR ''['' # ys) ''[download]'' = startsWith s ''[download]''"
proof -
  from assms obtain c cs where s: "s = c # cs" by (cases s) auto
  have "startsWith (cs @ CHR ''['' # ys) ''download]'' = startsWith cs ''download]''"
    by (rule startsWith_append_other) simp
  then show ?thesis by (simp add: s)
qed

lemma bracket_classes: "\<not> is_space CHR ''[''" "\<not> is_digit CHR ''[''"
  by (simp_all add: is_space_def is_digit_def)

lemma match_number_bracket: "match_number (r @ CHR ''['' # ys) = match_number r"
proof -
  let ?r' = "r @ CHR ''['' # ys"
  have d1: "takeWhile is_digit ?r' = takeWhile is_digit r"
    by (simp add: takeWhile_tail bracket_classes)
  have r3: "dropWhile is_digit ?r' = dropWhile is_digit r @ CHR ''['' # ys"
    by (simp add: dropWhile_append3 bracket_classes)
  show ?thesis
  proof (cases "dropWhile is_digit r")
    case Nil
    show ?thesis unfolding match_number_def d1 r3 Nil by (simp add: Let_def cong: if_cong)
  next
    case c: (Cons c r4)
    have d2: "takeWhile is_digit (r4 @ CHR ''['' # ys) = takeWhile is_digit r4"
      by (simp add: takeWhile_tail bracket_classes)
    have r5: "dropWhile is_digit (r4 @ CHR ''['' # ys) = dropWhile is_digit r4 @ CHR ''['' # ys"
      by (simp add: dropWhile_append3 bracket_classes)
    show ?thesis
    proof (cases "dropWhile is_digit r4")
      case Nil
      show ?thesis unfolding match_number_def d1 r3 c Let_def
        by (simp only: append_Cons list.case d2 r5 Nil) (simp cong: if_cong)
    next
      case (Cons p t)
      show ?thesis unfolding match_number_def d1 r3 c Let_def
        by (simp only: append_Cons list.case d2 r5 Cons)
    qed
  qed
qed

lemma match_at_bracket:
  assumes "s \<noteq> []"
  shows "match_at (s @ CHR ''['' # ys) = match_at s"
proof (cases "startsWith s ''[download]''")
  case False
  then show ?thesis using startsWith_bracket [OF assms, of ys] by (simp add: match_at_def)
next
  case True
  then have "length ''[download]'' \<le> length s"
    using prefix_length_le [of "''[download]''" s] by (simp add: startsWith_prefix)
  then have d: "drop (length ''[download]'') (s @ CHR ''['' # ys)
      = drop (length ''[download]'') s @ CHR ''['' # ys"
    by simp
  let ?r1 = "drop (length ''[download]'') s"
  have sp: "takeWhile is_space (?r1 @ CHR ''['' # ys) = takeWhile is_space ?r1"
    by (simp only: takeWhile_tail bracket_classes not_False_eq_True)
  have r2: "dropWhile is_space (?r1 @ CHR ''['' # ys) = dropWhile is_space ?r1 @ CHR ''['' # ys"
    by (simp only: dropWhile_append3 bracket_classes not_False_eq_True)
  have "match_at (s @ CHR ''['' # ys) =
      (if takeWhile is_space ?r1 = [] then None
       else match_number (dropWhile is_space ?r1 @ CHR ''['' # ys))"
    unfolding match_at_def d Let_def sp r2
    using True startsWith_bracket [OF assms, of ys] by simp
  also have "\<dots> = (if takeWhile is_space ?r1 = [] then None
       else match_number (dropWhile is_space ?r1))"
    by (simp only: match_number_bracket)
  also have "\<dots> = match_at s"
    unfolding match_at_def Let_def using True by simp
  finally show ?thesis .
qed

lemma progressMatch_None_Cons:
  "progressMatch (c # cs) = None \<longleftrightarrow> match_at (c # cs) = None \<and> progressMatch cs = None"
  by (simp split: option.splits)

lemma progressMatch_after_unmatched:
  assumes "progressMatch pre = None"
  shows "progressMatch (pre @ ''[download]  42.5%'' @ rest) = Some ''42.5''"
  using assms
proof (induction pre)
  case Nil
  have "progressMatch (''[download]  42.5%'' @ rest) = Some ''42.5''"
    using text_match_at [of rest] by simp
  then show ?case by simp
next
  case (Cons c pre)
  from Cons.prems have m: "match_at (c # pre) = None" and p: "progressMatch pre = None"
    by (simp_all only: progressMatch_None_Cons)
  have "match_at ((c # pre) @ CHR ''['' # (''download]  42.5%'' @ rest)) = match_at (c # pre)"
    by (rule match_at_bracket) simp
  with m have "match_at (c # pre @ ''[download]  42.5%'' @ rest) = None" by simp
  with Cons.IH [OF p] show ?case by simp
qed







lemma parse_42_5: "parseFloat ''42.5'' = 42.5"
  by (simp add: parseFloat_def nat_of_digits_def digit_val_def)

lemma includes_text_parts:
  assumes "output = pre @ ''[download]  42.5%'' @ rest"
  shows "str_includes output ''[download]''" "str_includes output ''%''"
    "str_includes output ''[download]  42.5%''"
proof -
  have "output = pre @ ''[download]'' @ (''  42.5%'' @ rest)" using assms by simp
  then show "str_includes output ''[download]''"
    unfolding str_includes_sublist sublist_def by blast
  have "output = (pre @ ''[download]  42.5'') @ ''%'' @ rest" using assms by simp
  then show "str_includes output ''%''"
    unfolding str_includes_sublist sublist_def by blast
  show "str_includes output ''[download]  42.5%''"
    unfolding str_includes_sublist sublist_def using assms by blast
qed

lemma classify_progress_text:
  assumes out: "output = pre @ ''[download]  42.5%'' @ rest"
    and pre: "progressMatch pre = None"
    and m: "\<not> str_includes output ''Extracting URL''"
      "\<not> str_includes output ''Downloading webpage''"
      "\<not> str_includes output ''Downloading android''"
      "\<not> str_includes output ''player API''"
      "\<not> str_includes output ''Downloading m3u8''"
      "\<not> str_includes output ''information''"
  shows "classify output =
     (\<lparr>phase = ''downloading'', color = ''#00ff00'', stepNumber = 5, totalSteps = 5,
       message = ''0/5 Preparing...''\<rparr>, Some ''42.5'')"
proof -
  have pm: "progressMatch output = Some ''42.5''"
    unfolding out using pre by (rule progressMatch_after_unmatched)
  show ?thesis
    unfolding classify_def
    using m includes_text_parts(1,2) [OF out] pm by simp
qed


lemma send_all_reaches_open:
  "\<forall>c \<in> set (clients w). readyState c = 1 \<longrightarrow> (sock c, ev) \<in> set (sent (send_all ev w))"
  by (auto simp: send_all_def broadcast_def)

lemma send_all_only_open:
  "(k, ev') \<in> set (broadcast ev cs) \<Longrightarrow> ev' = ev \<and> (\<exists>c \<in> set cs. sock c = k \<and> readyState c = 1)"
  by (auto simp: broadcast_def)

text \<open>
  Claim C3, as stated, fails. The tests of the chain are tried in order, so a line that
  contains \<open>[download]  42.5%\<close> and also \<open>Extracting URL\<close> is classified
  \<open>extracting\<close>, step 1, and a phase event without a percentage is sent. In a line
  with an earlier match of the pattern the percentage is that of the earlier match. In
  the retrying version, when the map of active downloads has no entry for the
  identifier, the handler throws before it sends anything.
\<close>

theorem C3_counterexample:
  "str_includes ''Extracting URL [download]  42.5%'' ''[download]  42.5%'' \<and>
   phase (fst (classify ''Extracting URL [download]  42.5%'')) = ''extracting'' \<and>
   stepNumber (fst (classify ''Extracting URL [download]  42.5%'')) = 1 \<and>
   snd (classify ''Extracting URL [download]  42.5%'') = None \<and>
   stderr_data_retrying ''Extracting URL [download]  42.5%''
       \<lparr>ctx_id = ''v'', ctx_attempt = 1, hasData = False, errorOutput = []\<rparr>
       \<lparr>activeDownloads = [(''v'', \<lparr>e_process = 0, e_progress = 0, e_attempt = Some 1\<rparr>)],
        rateLimitMap = (Map.empty :: string rate_map), metadataCache = [],
        clients = [\<lparr>sock = 7, readyState = 1\<rparr>], spawned = [], sent = []\<rparr>
     = Inr (\<lparr>ctx_id = ''v'', ctx_attempt = 1, hasData = False,
             errorOutput = ''Extracting URL [download]  42.5%''\<rparr>,
            \<lparr>activeDownloads = [(''v'', \<lparr>e_process = 0, e_progress = 0, e_attempt = Some 1\<rparr>)],
             rateLimitMap = Map.empty, metadataCache = [],
             clients = [\<lparr>sock = 7, readyState = 1\<rparr>], spawned = [],
             sent = [(7, JObj [(''type'', JStr ''phase''), (''id'', JStr ''v''),
                               (''phase'', JStr ''extracting''), (''color'', JStr ''#ff6b6b''),
                               (''message'', JStr ''Attempt 1: 1/5 Extracting...'')])]\<rparr>) \<and>
   str_includes ''[download] 1.0% [download]  42.5%'' ''[download]  42.5%'' \<and>
   snd (classify ''[download] 1.0% [download]  42.5%'') = Some ''1.0'' \<and>
   stderr_data_retrying ''[download]  42.5%''
       \<lparr>ctx_id = ''v'', ctx_attempt = 1, hasData = False, errorOutput = []\<rparr>
       \<lparr>activeDownloads = [],
        rateLimitMap = (Map.empty :: string rate_map), metadataCache = [],
        clients = [\<lparr>sock = 7, readyState = 1\<rparr>], spawned = [], sent = []\<rparr>
     = Inl TypeError"
  by (simp add: classify_def stderr_data_retrying_def step_message_def send_all_def broadcast_def
      match_at_def match_number_def is_space_def is_digit_def Map_get_def)


text \<open>
  Claim C3, amended. For every diagnostic chunk that contains \<open>[download]  42.5%\<close>,
  with no match of the progress pattern before it and none of the six substrings that
  the chain tests first (\<open>Extracting URL\<close>, \<open>Downloading webpage\<close>,
  \<open>Downloading android\<close>, \<open>player API\<close>, \<open>Downloading m3u8\<close>,
  \<open>information\<close>), the classifier assigns phase \<open>downloading\<close>, step 5 of 5, and
  captures \<open>42.5\<close>, the number 42.5. The simple version then sends a progress event
  carrying 42.5 to every open client; the retrying version does so when the map of
  active downloads has an entry for the identifier. An event sent to all reaches every
  client whose state is open.
\<close>

theorem C3_progress_line:
  assumes out: "output = pre @ ''[download]  42.5%'' @ rest"
    and pre: "progressMatch pre = None"
    and m: "\<not> str_includes output ''Extracting URL''"
      "\<not> str_includes output ''Downloading webpage''"
      "\<not> str_includes output ''Downloading android''"
      "\<not> str_includes output ''player API''"
      "\<not> str_includes output ''Downloading m3u8''"
      "\<not> str_includes output ''information''"
  shows "str_includes output ''[download]  42.5%'' \<and>
    phase (fst (classify output)) = ''downloading'' \<and>
    stepNumber (fst (classify output)) = 5 \<and>
    totalSteps (fst (classify output)) = 5 \<and>
    snd (classify output) = Some ''42.5'' \<and>
    parseFloat ''42.5'' = 42.5 \<and>
    (Map_get (ctx_id ctx) (activeDownloads w) = Some e \<longrightarrow>
       stderr_data_retrying output ctx w =
         Inr (ctx\<lparr>errorOutput := errorOutput ctx @ output\<rparr>,
              send_all
                (JObj [(''type'', JStr ''progress''), (''videoId'', JStr (ctx_id ctx)),
                       (''phase'', JStr ''downloading''), (''percent'', JNum 42.5)])
                (w\<lparr>activeDownloads :=
                     Map_set (ctx_id ctx) (e\<lparr>e_progress := 42.5\<rparr>) (activeDownloads w)\<rparr>))) \<and>
    sent (stderr_data_simple toFixed1 vid output w) =
      sent w @ broadcast
        (JObj [(''type'', JStr ''progress''), (''id'', JStr vid), (''progress'', JNum 42.5),
               (''phase'', JStr ''downloading''), (''color'', JStr ''#00ff00''),
               (''message'', JStr (''Downloading: '' @ toFixed1 42.5 @ ''%''))])
        (clients w) \<and>
    (\<forall>c \<in> set (clients w). readyState c = 1 \<longrightarrow>
       (sock c, ev) \<in> set (sent (send_all ev w)) \<and> (sock c, ev) \<in> set (broadcast ev (clients w)))"
proof -
  note c = classify_progress_text [OF out pre m]
  have p: "parseFloat ''42.5'' = 42.5" by (rule parse_42_5)
  have r: "Map_get (ctx_id ctx) (activeDownloads w) = Some e \<longrightarrow>
       stderr_data_retrying output ctx w =
         Inr (ctx\<lparr>errorOutput := errorOutput ctx @ output\<rparr>,
              send_all
                (JObj [(''type'', JStr ''progress''), (''videoId'', JStr (ctx_id ctx)),
                       (''phase'', JStr ''downloading''), (''percent'', JNum 42.5)])
                (w\<lparr>activeDownloads :=
                     Map_set (ctx_id ctx) (e\<lparr>e_progress := 42.5\<rparr>) (activeDownloads w)\<rparr>))"
    by (simp add: stderr_data_retrying_def c p Let_def)
  have s: "sent (stderr_data_simple toFixed1 vid output w) =
      sent w @ broadcast
        (JObj [(''type'', JStr ''progress''), (''id'', JStr vid), (''progress'', JNum 42.5),
               (''phase'', JStr ''downloading''), (''color'', JStr ''#00ff00''),
               (''message'', JStr (''Downloading: '' @ toFixed1 42.5 @ ''%''))])
        (clients w)"
    by (simp add: stderr_data_simple_def c p send_all_def Let_def split: option.splits)
  have b: "\<forall>c \<in> set (clients w). readyState c = 1 \<longrightarrow>
       (sock c, ev) \<in> set (sent (send_all ev w)) \<and> (sock c, ev) \<in> set (broadcast ev (clients w))"
    by (auto simp: send_all_def broadcast_def)
  from includes_text_parts(3) [OF out] c p r s b show ?thesis by simp
qed

theorem C3_witness:
  "snd (classify ''[download]  42.5% of 3.50MiB'') = Some ''42.5'' \<and>
   stepNumber (fst (classify ''[download]  42.5% of 3.50MiB'')) = 5 \<and>
   stderr_data_retrying ''[download]  42.5% of 3.50MiB''
       \<lparr>ctx_id = ''v'', ctx_attempt = 1, hasData = False, errorOutput = []\<rparr>
       \<lparr>activeDownloads = [(''v'', \<lparr>e_process = 0, e_progress = 0, e_attempt = Some 1\<rparr>)],
        rateLimitMap = (Map.empty :: string rate_map), metadataCache = [],
        clients = [\<lparr>sock = 7, readyState = 1\<rparr>, \<lparr>sock = 8, readyState = 3\<rparr>],
        spawned = [], sent = []\<rparr>
     = Inr (\<lparr>ctx_id = ''v'', ctx_attempt = 1, hasData = False,
             errorOutput = ''[download]  42.5% of 3.50MiB''\<rparr>,
            \<lparr>activeDownloads = [(''v'', \<lparr>e_process = 0, e_progress = 42.5, e_attempt = Some 1\<rparr>)],
             rateLimitMap = Map.empty, metadataCache = [],
             clients = [\<lparr>sock = 7, readyState = 1\<rparr>, \<lparr>sock = 8, readyState = 3\<rparr>],
             spawned = [],
             sent = [(7, JObj [(''type'', JStr ''progress''), (''videoId'', JStr ''v''),
                               (''phase'', JStr ''downloading''), (''percent'', JNum 42.5)])]\<rparr>)"
proof -
  have h: "''[download]  42.5% of 3.50MiB'' = [] @ ''[download]  42.5%'' @ '' of 3.50MiB''"
    by simp
  have n: "progressMatch [] = None" by (simp add: match_at_def)
  note t = C3_progress_line [OF h n, of
      "\<lparr>ctx_id = ''v'', ctx_attempt = 1, hasData = False, errorOutput = []\<rparr>"
      "\<lparr>activeDownloads = [(''v'', \<lparr>e_process = 0, e_progress = 0, e_attempt = Some 1\<rparr>)],
        rateLimitMap = (Map.empty :: string rate_map), metadataCache = [],
        clients = [\<lparr>sock = 7, readyState = 1\<rparr>, \<lparr>sock = 8, readyState = 3\<rparr>],
        spawned = [], sent = []\<rparr>"
      "\<lparr>e_process = 0, e_progress = 0, e_attempt = Some 1\<rparr>"
      "\<lambda>x. []" "[]" "JObj []"]
  show ?thesis
    using t by (simp add: Map_get_def Map_set_def send_all_def broadcast_def)
qed



text \<open>
  A percentage without a decimal point fails the pattern also when a point occurs
  later in the line.
\<close>

lemma progressMatch_point_elsewhere:
  "progressMatch ''[download] 100% of 3.50MiB'' = None"
  by (simp add: match_at_def match_number_def is_space_def is_digit_def)

subsection \<open>Streaming the subprocess output\<close>

lemma stdout_second_chunk_dropped:
  "snd (stdout_data_retrying d2 c2 (snd (stdout_data_retrying d1 c1 res)))
     = snd (stdout_data_retrying d1 c1 res)"
  by (simp add: stdout_data_retrying_def res_write_def)

lemma stdout_then_close_keeps_open:
  "fst (close_retrying (Some 0) (fst (stdout_data_retrying d ctx res))
          (snd (stdout_data_retrying d ctx res)) w) = Resolve \<and>
   finished (fst (snd (close_retrying (Some 0) (fst (stdout_data_retrying d ctx res))
          (snd (stdout_data_retrying d ctx res)) w))) = finished res"
  by (simp add: stdout_data_retrying_def close_retrying_def res_write_def res_end_def Let_def)

lemma pipe_forwards_all:
  "\<not> finished res \<Longrightarrow> body (pipe_data d2 (pipe_data d1 res)) = body res @ [Bytes d1, Bytes d2]"
  by (simp add: pipe_data_def res_write_def)

lemma pipe_list_forwards_all:
  "\<not> finished res \<Longrightarrow> body (foldl (\<lambda>r d. pipe_data d r) res ds) = body res @ map Bytes ds
     \<and> \<not> finished (foldl (\<lambda>r d. pipe_data d r) res ds)"
  by (induction ds arbitrary: res) (simp_all add: pipe_data_def res_write_def)

lemma pipe_end_completes:
  "finished (pipe_end res) \<and> statusCode (pipe_end res) = statusCode res \<and> body (pipe_end res) = body res"
  by (simp add: pipe_end_def res_end_def)

lemma close_simple_success:
  "close_simple (Some 0) vid res w =
     (res, send_all (JObj [(''type'', JStr ''complete''), (''id'', JStr vid),
                           (''message'', JStr ''Download complete!'')])
             (w\<lparr>activeDownloads := Map_delete vid (activeDownloads w)\<rparr>))"
  by (simp add: close_simple_def)

lemma handler_start_example:
  "download_handler_retrying \<lparr>YT_DLP_CMD = ''yt-dlp'', cookiesPath = ''c''\<rparr> 0
       \<lparr>query_id = Some ''v'', clientIP = ''a''\<rparr>
       \<lparr>activeDownloads = [], rateLimitMap = Map.empty, metadataCache = [],
        clients = [\<lparr>sock = 7, readyState = 1\<rparr>], spawned = [], sent = []\<rparr>
     = (Some (Inr \<lparr>ctx_id = ''v'', ctx_attempt = 1, hasData = False, errorOutput = []\<rparr>),
        \<lparr>statusCode = 200,
         headers = [(''Content-Type'', ''audio/webm''),
                    (''Content-Disposition'', ''attachment; filename='' @ [CHR 0x22] @ ''v.webm'' @ [CHR 0x22])],
         headersSent = False, body = [], finished = False\<rparr>,
        \<lparr>activeDownloads = [(''v'', \<lparr>e_process = 0, e_progress = 0, e_attempt = Some 1\<rparr>)],
         rateLimitMap = [''a'' \<mapsto> [0]], metadataCache = [],
         clients = [\<lparr>sock = 7, readyState = 1\<rparr>],
         spawned = [(''yt-dlp'', attempt_args \<lparr>YT_DLP_CMD = ''yt-dlp'', cookiesPath = ''c''\<rparr> ''v'' 1)],
         sent = []\<rparr>)"
  by (simp add: download_handler_retrying_def falsy_def checkRateLimit_def RATE_LIMIT_MAX_def
      tryDownloadWithFallbacks_def spawn_def Map_set_def res_setHeader_def fresh_res_def Let_def
      invalid_header_char_def)

text \<open>
  Claim C5 on the retrying version: its \<^verbatim>\<open>stdout\<close> handler writes a chunk only while
  \<^verbatim>\<open>res.headersSent\<close> is false, and the first write sets it. So a second chunk
  never changes the response, whatever the response was; after the request for
  \<open>v\<close> and the chunks \<open>a\<close> and \<open>b\<close> the body is \<open>a\<close> alone. (The simple
  version pipes every chunk, lemma \<open>pipe_list_forwards_all\<close>.)
\<close>

theorem C5_later_chunks_dropped:
  "snd (stdout_data_retrying d2 c2 (snd (stdout_data_retrying d1 c1 res)))
     = snd (stdout_data_retrying d1 c1 res) \<and>
   download_handler_retrying \<lparr>YT_DLP_CMD = ''yt-dlp'', cookiesPath = ''c''\<rparr> 0
       \<lparr>query_id = Some ''v'', clientIP = ''a''\<rparr>
       \<lparr>activeDownloads = [], rateLimitMap = Map.empty, metadataCache = [],
        clients = [\<lparr>sock = 7, readyState = 1\<rparr>], spawned = [], sent = []\<rparr>
     = (Some (Inr \<lparr>ctx_id = ''v'', ctx_attempt = 1, hasData = False, errorOutput = []\<rparr>),
        \<lparr>statusCode = 200,
         headers = [(''Content-Type'', ''audio/webm''),
                    (''Content-Disposition'', ''attachment; filename='' @ [CHR 0x22] @ ''v.webm'' @ [CHR 0x22])],
         headersSent = False, body = [], finished = False\<rparr>,
        \<lparr>activeDownloads = [(''v'', \<lparr>e_process = 0, e_progress = 0, e_attempt = Some 1\<rparr>)],
         rateLimitMap = [''a'' \<mapsto> [0]], metadataCache = [],
         clients = [\<lparr>sock = 7, readyState = 1\<rparr>],
         spawned = [(''yt-dlp'', attempt_args \<lparr>YT_DLP_CMD = ''yt-dlp'', cookiesPath = ''c''\<rparr> ''v'' 1)],
         sent = []\<rparr>) \<and>
   stdout_data_retrying ''a''
       \<lparr>ctx_id = ''v'', ctx_attempt = 1, hasData = False, errorOutput = []\<rparr>
       \<lparr>statusCode = 200,
         headers = [(''Content-Type'', ''audio/webm''),
                    (''Content-Disposition'', ''attachment; filename='' @ [CHR 0x22] @ ''v.webm'' @ [CHR 0x22])],
         headersSent = False, body = [], finished = False\<rparr>
     = (\<lparr>ctx_id = ''v'', ctx_attempt = 1, hasData = True, errorOutput = []\<rparr>,
        \<lparr>statusCode = 200,
         headers = [(''Content-Type'', ''audio/webm''),
                    (''Content-Disposition'', ''attachment; filename='' @ [CHR 0x22] @ ''v.webm'' @ [CHR 0x22])],
         headersSent = True, body = [Bytes ''a''], finished = False\<rparr>) \<and>
   stdout_data_retrying ''b''
       \<lparr>ctx_id = ''v'', ctx_attempt = 1, hasData = True, errorOutput = []\<rparr>
       \<lparr>statusCode = 200,
         headers = [(''Content-Type'', ''audio/webm''),
                    (''Content-Disposition'', ''attachment; filename='' @ [CHR 0x22] @ ''v.webm'' @ [CHR 0x22])],
         headersSent = True, body = [Bytes ''a''], finished = False\<rparr>
     = (\<lparr>ctx_id = ''v'', ctx_attempt = 1, hasData = True, errorOutput = []\<rparr>,
        \<lparr>statusCode = 200,
         headers = [(''Content-Type'', ''audio/webm''),
                    (''Content-Disposition'', ''attachment; filename='' @ [CHR 0x22] @ ''v.webm'' @ [CHR 0x22])],
         headersSent = True, body = [Bytes ''a''], finished = False\<rparr>)"
proof (intro conjI)
  show "snd (stdout_data_retrying d2 c2 (snd (stdout_data_retrying d1 c1 res)))
     = snd (stdout_data_retrying d1 c1 res)"
    by (rule stdout_second_chunk_dropped)
  show "download_handler_retrying \<lparr>YT_DLP_CMD = ''yt-dlp'', cookiesPath = ''c''\<rparr> 0
       \<lparr>query_id = Some ''v'', clientIP = ''a''\<rparr>
       \<lparr>activeDownloads = [], rateLimitMap = Map.empty, metadataCache = [],
        clients = [\<lparr>sock = 7, readyState = 1\<rparr>], spawned = [], sent = []\<rparr>
     = (Some (Inr \<lparr>ctx_id = ''v'', ctx_attempt = 1, hasData = False, errorOutput = []\<rparr>),
        \<lparr>statusCode = 200,
         headers = [(''Content-Type'', ''audio/webm''),
                    (''Content-Disposition'', ''attachment; filename='' @ [CHR 0x22] @ ''v.webm'' @ [CHR 0x22])],
         headersSent = False, body = [], finished = False\<rparr>,
        \<lparr>activeDownloads = [(''v'', \<lparr>e_process = 0, e_progress = 0, e_attempt = Some 1\<rparr>)],
         rateLimitMap = [''a'' \<mapsto> [0]], metadataCache = [],
         clients = [\<lparr>sock = 7, readyState = 1\<rparr>],
         spawned = [(''yt-dlp'', attempt_args \<lparr>YT_DLP_CMD = ''yt-dlp'', cookiesPath = ''c''\<rparr> ''v'' 1)],
         sent = []\<rparr>)"
    by (rule handler_start_example)
  show "stdout_data_retrying ''a''
       \<lparr>ctx_id = ''v'', ctx_attempt = 1, hasData = False, errorOutput = []\<rparr>
       \<lparr>statusCode = 200,
         headers = [(''Content-Type'', ''audio/webm''),
                    (''Content-Disposition'', ''attachment; filename='' @ [CHR 0x22] @ ''v.webm'' @ [CHR 0x22])],
         headersSent = False, body = [], finished = False\<rparr>
     = (\<lparr>ctx_id = ''v'', ctx_attempt = 1, hasData = True, errorOutput = []\<rparr>,
        \<lparr>statusCode = 200,
         headers = [(''Content-Type'', ''audio/webm''),
                    (''Content-Disposition'', ''attachment; filename='' @ [CHR 0x22] @ ''v.webm'' @ [CHR 0x22])],
         headersSent = True, body = [Bytes ''a''], finished = False\<rparr>)"
    by (simp add: stdout_data_retrying_def res_write_def)
  show "stdout_data_retrying ''b''
       \<lparr>ctx_id = ''v'', ctx_attempt = 1, hasData = True, errorOutput = []\<rparr>
       \<lparr>statusCode = 200,
         headers = [(''Content-Type'', ''audio/webm''),
                    (''Content-Disposition'', ''attachment; filename='' @ [CHR 0x22] @ ''v.webm'' @ [CHR 0x22])],
         headersSent = True, body = [Bytes ''a''], finished = False\<rparr>
     = (\<lparr>ctx_id = ''v'', ctx_attempt = 1, hasData = True, errorOutput = []\<rparr>,
        \<lparr>statusCode = 200,
         headers = [(''Content-Type'', ''audio/webm''),
                    (''Content-Disposition'', ''attachment; filename='' @ [CHR 0x22] @ ''v.webm'' @ [CHR 0x22])],
         headersSent = True, body = [Bytes ''a''], finished = False\<rparr>)"
    by (simp add: stdout_data_retrying_def res_write_def)
qed

text \<open>
  Claim C4 on the retrying version: after a chunk of standard output and exit code 0
  the close handler resolves and broadcasts \<open>complete\<close>, but it ends the response
  only while \<^verbatim>\<open>res.headersSent\<close> is false, and the write of the chunk has set it:
  the response is as finished as it was before. After the request for \<open>v\<close>, the
  chunk \<open>x\<close> and exit code 0, the response has status 200, the body \<open>x\<close> and is
  not ended. (In the simple version the pipe ends the response, lemma
  \<open>pipe_end_completes\<close>, and the close handler broadcasts \<open>complete\<close>, lemma
  \<open>close_simple_success\<close>.)
\<close>

theorem C4_response_left_open:
  "fst (close_retrying (Some 0) (fst (stdout_data_retrying d ctx res))
          (snd (stdout_data_retrying d ctx res)) w) = Resolve \<and>
   finished (fst (snd (close_retrying (Some 0) (fst (stdout_data_retrying d ctx res))
          (snd (stdout_data_retrying d ctx res)) w))) = finished res \<and>
   download_handler_retrying \<lparr>YT_DLP_CMD = ''yt-dlp'', cookiesPath = ''c''\<rparr> 0
       \<lparr>query_id = Some ''v'', clientIP = ''a''\<rparr>
       \<lparr>activeDownloads = [], rateLimitMap = Map.empty, metadataCache = [],
        clients = [\<lparr>sock = 7, readyState = 1\<rparr>], spawned = [], sent = []\<rparr>
     = (Some (Inr \<lparr>ctx_id = ''v'', ctx_attempt = 1, hasData = False, errorOutput = []\<rparr>),
        \<lparr>statusCode = 200,
         headers = [(''Content-Type'', ''audio/webm''),
                    (''Content-Disposition'', ''attachment; filename='' @ [CHR 0x22] @ ''v.webm'' @ [CHR 0x22])],
         headersSent = False, body = [], finished = False\<rparr>,
        \<lparr>activeDownloads = [(''v'', \<lparr>e_process = 0, e_progress = 0, e_attempt = Some 1\<rparr>)],
         rateLimitMap = [''a'' \<mapsto> [0]], metadataCache = [],
         clients = [\<lparr>sock = 7, readyState = 1\<rparr>],
         spawned = [(''yt-dlp'', attempt_args \<lparr>YT_DLP_CMD = ''yt-dlp'', cookiesPath = ''c''\<rparr> ''v'' 1)],
         sent = []\<rparr>) \<and>
   stdout_data_retrying ''x''
       \<lparr>ctx_id = ''v'', ctx_attempt = 1, hasData = False, errorOutput = []\<rparr>
       \<lparr>statusCode = 200,
         headers = [(''Content-Type'', ''audio/webm''),
                    (''Content-Disposition'', ''attachment; filename='' @ [CHR 0x22] @ ''v.webm'' @ [CHR 0x22])],
         headersSent = False, body = [], finished = False\<rparr>
     = (\<lparr>ctx_id = ''v'', ctx_attempt = 1, hasData = True, errorOutput = []\<rparr>,
        \<lparr>statusCode = 200,
         headers = [(''Content-Type'', ''audio/webm''),
                    (''Content-Disposition'', ''attachment; filename='' @ [CHR 0x22] @ ''v.webm'' @ [CHR 0x22])],
         headersSent = True, body = [Bytes ''x''], finished = False\<rparr>) \<and>
   close_retrying (Some 0)
       \<lparr>ctx_id = ''v'', ctx_attempt = 1, hasData = True, errorOutput = []\<rparr>
       \<lparr>statusCode = 200,
         headers = [(''Content-Type'', ''audio/webm''),
                    (''Content-Disposition'', ''attachment; filename='' @ [CHR 0x22] @ ''v.webm'' @ [CHR 0x22])],
         headersSent = True, body = [Bytes ''x''], finished = False\<rparr>
       \<lparr>activeDownloads = [(''v'', \<lparr>e_process = 0, e_progress = 0, e_attempt = Some 1\<rparr>)],
         rateLimitMap = [''a'' \<mapsto> [0]], metadataCache = [],
         clients = [\<lparr>sock = 7, readyState = 1\<rparr>],
         spawned = [(''yt-dlp'', attempt_args \<lparr>YT_DLP_CMD = ''yt-dlp'', cookiesPath = ''c''\<rparr> ''v'' 1)],
         sent = []\<rparr>
     = (Resolve,
        \<lparr>statusCode = 200,
         headers = [(''Content-Type'', ''audio/webm''),
                    (''Content-Disposition'', ''attachment; filename='' @ [CHR 0x22] @ ''v.webm'' @ [CHR 0x22])],
         headersSent = True, body = [Bytes ''x''], finished = False\<rparr>,
        \<lparr>activeDownloads = [], rateLimitMap = [''a'' \<mapsto> [0]], metadataCache = [],
         clients = [\<lparr>sock = 7, readyState = 1\<rparr>],
         spawned = [(''yt-dlp'', attempt_args \<lparr>YT_DLP_CMD = ''yt-dlp'', cookiesPath = ''c''\<rparr> ''v'' 1)],
         sent = [(7, JObj [(''type'', JStr ''complete''), (''id'', JStr ''v''),
                           (''message'', JStr ''Download completed! (Attempt 1)'')])]\<rparr>)"
proof (intro conjI)
  show "fst (close_retrying (Some 0) (fst (stdout_data_retrying d ctx res))
          (snd (stdout_data_retrying d ctx res)) w) = Resolve"
    using stdout_then_close_keeps_open by blast
  show "finished (fst (snd (close_retrying (Some 0) (fst (stdout_data_retrying d ctx res))
          (snd (stdout_data_retrying d ctx res)) w))) = finished res"
    using stdout_then_close_keeps_open by blast
  show "download_handler_retrying \<lparr>YT_DLP_CMD = ''yt-dlp'', cookiesPath = ''c''\<rparr> 0
       \<lparr>query_id = Some ''v'', clientIP = ''a''\<rparr>
       \<lparr>activeDownloads = [], rateLimitMap = Map.empty, metadataCache = [],
        clients = [\<lparr>sock = 7, readyState = 1\<rparr>], spawned = [], sent = []\<rparr>
     = (Some (Inr \<lparr>ctx_id = ''v'', ctx_attempt = 1, hasData = False, errorOutput = []\<rparr>),
        \<lparr>statusCode = 200,
         headers = [(''Content-Type'', ''audio/webm''),
                    (''Content-Disposition'', ''attachment; filename='' @ [CHR 0x22] @ ''v.webm'' @ [CHR 0x22])],
         headersSent = False, body = [], finished = False\<rparr>,
        \<lparr>activeDownloads = [(''v'', \<lparr>e_process = 0, e_progress = 0, e_attempt = Some 1\<rparr>)],
         rateLimitMap = [''a'' \<mapsto> [0]], metadataCache = [],
         clients = [\<lparr>sock = 7, readyState = 1\<rparr>],
         spawned = [(''yt-dlp'', attempt_args \<lparr>YT_DLP_CMD = ''yt-dlp'', cookiesPath = ''c''\<rparr> ''v'' 1)],
         sent = []\<rparr>)"
    by (rule handler_start_example)
  show "stdout_data_retrying ''x''
       \<lparr>ctx_id = ''v'', ctx_attempt = 1, hasData = False, errorOutput = []\<rparr>
       \<lparr>statusCode = 200,
         headers = [(''Content-Type'', ''audio/webm''),
                    (''Content-Disposition'', ''attachment; filename='' @ [CHR 0x22] @ ''v.webm'' @ [CHR 0x22])],
         headersSent = False, body = [], finished = False\<rparr>
     = (\<lparr>ctx_id = ''v'', ctx_attempt = 1, hasData = True, errorOutput = []\<rparr>,
        \<lparr>statusCode = 200,
         headers = [(''Content-Type'', ''audio/webm''),
                    (''Content-Disposition'', ''attachment; filename='' @ [CHR 0x22] @ ''v.webm'' @ [CHR 0x22])],
         headersSent = True, body = [Bytes ''x''], finished = False\<rparr>)"
    by (simp add: stdout_data_retrying_def res_write_def)
  show "close_retrying (Some 0)
       \<lparr>ctx_id = ''v'', ctx_attempt = 1, hasData = True, errorOutput = []\<rparr>
       \<lparr>statusCode = 200,
         headers = [(''Content-Type'', ''audio/webm''),
                    (''Content-Disposition'', ''attachment; filename='' @ [CHR 0x22] @ ''v.webm'' @ [CHR 0x22])],
         headersSent = True, body = [Bytes ''x''], finished = False\<rparr>
       \<lparr>activeDownloads = [(''v'', \<lparr>e_process = 0, e_progress = 0, e_attempt = Some 1\<rparr>)],
         rateLimitMap = [''a'' \<mapsto> [0]], metadataCache = [],
         clients = [\<lparr>sock = 7, readyState = 1\<rparr>],
         spawned = [(''yt-dlp'', attempt_args \<lparr>YT_DLP_CMD = ''yt-dlp'', cookiesPath = ''c''\<rparr> ''v'' 1)],
         sent = []\<rparr>
     = (Resolve,
        \<lparr>statusCode = 200,
         headers = [(''Content-Type'', ''audio/webm''),
                    (''Content-Disposition'', ''attachment; filename='' @ [CHR 0x22] @ ''v.webm'' @ [CHR 0x22])],
         headersSent = True, body = [Bytes ''x''], finished = False\<rparr>,
        \<lparr>activeDownloads = [], rateLimitMap = [''a'' \<mapsto> [0]], metadataCache = [],
         clients = [\<lparr>sock = 7, readyState = 1\<rparr>],
         spawned = [(''yt-dlp'', attempt_args \<lparr>YT_DLP_CMD = ''yt-dlp'', cookiesPath = ''c''\<rparr> ''v'' 1)],
         sent = [(7, JObj [(''type'', JStr ''complete''), (''id'', JStr ''v''),
                           (''message'', JStr ''Download completed! (Attempt 1)'')])]\<rparr>)"
    by (simp add: close_retrying_def Let_def send_all_def broadcast_def Map_delete_def)
qed

subsection \<open>Search and the missing identifier\<close>

text \<open>
  Claim C6. With an absent or empty query the search handler answers the empty list
  (status 200) and makes no call to the provider. With a non-empty query it calls the
  provider once, with limit 10 and type \<open>video\<close>; when the provider fails the answer
  is status 500 with the payload \<open>{error: search_failed}\<close>, and otherwise the list of
  the projected results.
\<close>

theorem C6_search:
  "(falsy q = (q = None \<or> q = Some [])) \<and>
   (falsy q \<longrightarrow>
      search_handler provider q = (res_json (JArr []) fresh_res, []) \<and>
      statusCode (fst (search_handler provider q)) = 200 \<and>
      body (fst (search_handler provider q)) = [Json (JArr [])]) \<and>
   (q = Some s \<and> s \<noteq> [] \<longrightarrow>
      snd (search_handler provider q) = [(s, 10, ''video'')]) \<and>
   (q = Some s \<and> s \<noteq> [] \<and> provider s 10 ''video'' = Inl e \<longrightarrow>
      statusCode (fst (search_handler provider q)) = 500 \<and>
      body (fst (search_handler provider q)) = [Json (JObj [(''error'', JStr ''search_failed'')])] \<and>
      finished (fst (search_handler provider q))) \<and>
   (q = Some s \<and> s \<noteq> [] \<and> provider s 10 ''video'' = Inr vs \<longrightarrow>
      statusCode (fst (search_handler provider q)) = 200 \<and>
      body (fst (search_handler provider q)) = [Json (JArr (map simplified vs))])"
  by (auto simp: search_handler_def falsy_def res_json_def res_status_def fresh_res_def
      split: option.splits sum.splits)

theorem C6_witness:
  "search_handler (\<lambda>q l t. Inl ''unreachable'') None = (res_json (JArr []) fresh_res, []) \<and>
   search_handler (\<lambda>q l t. Inl ''unreachable'') (Some []) = (res_json (JArr []) fresh_res, []) \<and>
   snd (search_handler (\<lambda>q l t. Inl ''unreachable'') (Some ''abc'')) = [(''abc'', 10, ''video'')] \<and>
   statusCode (fst (search_handler (\<lambda>q l t. Inl ''unreachable'') (Some ''abc''))) = 500 \<and>
   body (fst (search_handler (\<lambda>q l t. Inl ''unreachable'') (Some ''abc'')))
     = [Json (JObj [(''error'', JStr ''search_failed'')])] \<and>
   body (fst (search_handler
       (\<lambda>q l t. Inr [\<lparr>v_id = ''i'', v_title = ''t'', v_duration = 61500, v_thumbnail = None\<rparr>])
       (Some ''abc'')))
     = [Json (JArr [JObj [(''id'', JStr ''i''), (''title'', JStr ''t''), (''duration'', JNum 61)]])]"
proof -
  note a = C6_search [of None "\<lambda>q l t. Inl ''unreachable''" "[]" "[]" "[]"]
  note b = C6_search [of "Some []" "\<lambda>q l t. Inl ''unreachable''" "[]" "[]" "[]"]
  note c = C6_search [of "Some ''abc''" "\<lambda>q l t. Inl ''unreachable''" "''abc''" "''unreachable''" "[]"]
  have 1: "search_handler (\<lambda>q l t. Inl ''unreachable'') None = (res_json (JArr []) fresh_res, [])"
    using a by simp
  have 2: "search_handler (\<lambda>q l t. Inl ''unreachable'') (Some []) = (res_json (JArr []) fresh_res, [])"
    using b by simp
  have 3: "snd (search_handler (\<lambda>q l t. Inl ''unreachable'') (Some ''abc'')) = [(''abc'', 10, ''video'')]"
    and 4: "statusCode (fst (search_handler (\<lambda>q l t. Inl ''unreachable'') (Some ''abc''))) = 500"
    and 5: "body (fst (search_handler (\<lambda>q l t. Inl ''unreachable'') (Some ''abc'')))
     = [Json (JObj [(''error'', JStr ''search_failed'')])]"
    using c by simp_all
  have 6: "body (fst (search_handler
       (\<lambda>q l t. Inr [\<lparr>v_id = ''i'', v_title = ''t'', v_duration = 61500, v_thumbnail = None\<rparr>])
       (Some ''abc'')))
     = [Json (JArr [JObj [(''id'', JStr ''i''), (''title'', JStr ''t''), (''duration'', JNum 61)]])]"
    using C6_search [of "Some ''abc''"
        "\<lambda>q l t. Inr [\<lparr>v_id = ''i'', v_title = ''t'', v_duration = 61500, v_thumbnail = None\<rparr>]"
        "''abc''" "[]"
        "[\<lparr>v_id = ''i'', v_title = ''t'', v_duration = 61500, v_thumbnail = None\<rparr>]"]
    by (simp add: simplified_def)
  from 1 2 3 4 5 6 show ?thesis by blast
qed

text \<open>
  Claim C7. When the \<open>id\<close> parameter is missing (or empty), the download handler of
  the retrying version and that of the simple version answer with the text
  \<open>video id required\<close> and leave the server state as it was; in particular the log
  of spawned subprocesses is unchanged.
\<close>

theorem C7_missing_id:
  "(query_id req = None \<longrightarrow> falsy (query_id req)) \<and>
   (falsy (query_id req) \<longrightarrow>
      download_handler_retrying cfg now req w =
        (None, res_send ''video id required'' fresh_res, w) \<and>
      download_handler_simple cfg req w =
        (None, res_send ''video id required'' fresh_res, w) \<and>
      spawned (snd (snd (download_handler_retrying cfg now req w))) = spawned w \<and>
      spawned (snd (snd (download_handler_simple cfg req w))) = spawned w) \<and>
   res_send ''video id required'' fresh_res =
     \<lparr>statusCode = 200, headers = [], headersSent = True,
      body = [Text ''video id required''], finished = True\<rparr>"
  by (simp add: download_handler_retrying_def download_handler_simple_def falsy_def
      res_send_def fresh_res_def)

theorem C7_witness:
  "download_handler_retrying \<lparr>YT_DLP_CMD = ''yt-dlp'', cookiesPath = ''c''\<rparr> 5
       \<lparr>query_id = None, clientIP = ''a''\<rparr>
       \<lparr>activeDownloads = [], rateLimitMap = Map.empty, metadataCache = [],
        clients = [], spawned = [], sent = []\<rparr>
     = (None, res_send ''video id required'' fresh_res,
        \<lparr>activeDownloads = [], rateLimitMap = Map.empty, metadataCache = [],
         clients = [], spawned = [], sent = []\<rparr>) \<and>
   download_handler_simple \<lparr>YT_DLP_CMD = ''yt-dlp'', cookiesPath = ''c''\<rparr>
       \<lparr>query_id = None, clientIP = ''a''\<rparr>
       \<lparr>activeDownloads = [], rateLimitMap = Map.empty, metadataCache = [],
        clients = [], spawned = [], sent = []\<rparr>
     = (None, res_send ''video id required'' fresh_res,
        \<lparr>activeDownloads = [], rateLimitMap = Map.empty, metadataCache = [],
         clients = [], spawned = [], sent = []\<rparr>)"
  using C7_missing_id [of "\<lparr>query_id = None, clientIP = ''a''\<rparr>"
      "\<lparr>YT_DLP_CMD = ''yt-dlp'', cookiesPath = ''c''\<rparr>" 5
      "\<lparr>activeDownloads = [], rateLimitMap = Map.empty, metadataCache = [],
        clients = [], spawned = [], sent = []\<rparr>"]
  by simp

subsection \<open>The map of active downloads\<close>

lemma distinct_Map_set: "distinct (map fst m) \<Longrightarrow> distinct (map fst (Map_set k v m))"
  by (simp add: Map_set_def distinct_update)

lemma distinct_Map_delete: "distinct (map fst m) \<Longrightarrow> distinct (map fst (Map_delete k m))"
  by (simp add: Map_delete_def distinct_delete)

lemma Map_get_set: "Map_get k (Map_set k v m) = Some v"
  by (simp add: Map_get_def Map_set_def update_conv')

lemma Map_get_delete: "Map_get k (Map_delete k m) = None"
  by (simp add: Map_get_def Map_delete_def delete_conv')

lemma active_send_all [simp]: "activeDownloads (send_all ev w) = activeDownloads w"
  by (simp add: send_all_def)

lemma try_active:
  "activeDownloads (snd (snd (tryDownloadWithFallbacks cfg vid a res w))) =
     Map_set vid \<lparr>e_process = length (spawned w), e_progress = 0, e_attempt = Some a\<rparr>
       (activeDownloads w)"
  by (simp add: tryDownloadWithFallbacks_def spawn_def Let_def split: sum.splits)

lemma handler_retrying_world:
  "snd (snd (download_handler_retrying cfg now req w)) =
     (if falsy (query_id req) then w
      else if \<not> fst (checkRateLimit now (clientIP req) (rateLimitMap w)) then
        w\<lparr>rateLimitMap := snd (checkRateLimit now (clientIP req) (rateLimitMap w))\<rparr>
      else snd (snd (tryDownloadWithFallbacks cfg
          (case query_id req of Some s \<Rightarrow> s | None \<Rightarrow> []) 1 fresh_res
          (w\<lparr>rateLimitMap := snd (checkRateLimit now (clientIP req) (rateLimitMap w))\<rparr>))))"
  by (simp add: download_handler_retrying_def Let_def split: prod.splits)

lemma handler_retrying_active:
  "activeDownloads (snd (snd (download_handler_retrying cfg now req w))) = activeDownloads w \<or>
   (\<exists>vid e. activeDownloads (snd (snd (download_handler_retrying cfg now req w))) =
      Map_set vid e (activeDownloads w))"
  unfolding handler_retrying_world by (auto simp: try_active)

lemma stderr_retrying_active:
  assumes "stderr_data_retrying output ctx w = Inr (ctx', w')"
  shows "activeDownloads w' = activeDownloads w \<or>
     (\<exists>e. activeDownloads w' = Map_set (ctx_id ctx) e (activeDownloads w))"
  using assms
  by (auto simp: stderr_data_retrying_def Let_def split: prod.splits option.splits)

lemma close_retrying_active:
  "activeDownloads (snd (snd (close_retrying code ctx res w))) =
     Map_delete (ctx_id ctx) (activeDownloads w)"
  by (simp add: close_retrying_def Let_def)

lemma error_retrying_active:
  "activeDownloads (snd (snd (error_retrying err ctx res w))) =
     Map_delete (ctx_id ctx) (activeDownloads w)"
  by (simp add: error_retrying_def Let_def)

lemma reachable_retrying_one_entry:
  "reachable_retrying cfg w \<Longrightarrow> one_entry_per_id w"
proof (induction rule: reachable_retrying.induct)
  case (start w)
  then show ?case by (simp add: one_entry_per_id_def)
next
  case (sockets w cs)
  then show ?case by (simp add: one_entry_per_id_def)
next
  case (request w now req)
  then show ?case
    using handler_retrying_active [of cfg now req w]
    by (auto simp: one_entry_per_id_def distinct_Map_set)
next
  case (retry w vid attempt res)
  then show ?case by (simp add: one_entry_per_id_def try_active distinct_Map_set)
next
  case (stderr_data w chunk ctx ctx' w')
  then show ?case
    using stderr_retrying_active [of chunk ctx w ctx' w']
    by (auto simp: one_entry_per_id_def distinct_Map_set)
next
  case (closed w code ctx res)
  then show ?case by (simp add: one_entry_per_id_def close_retrying_active distinct_Map_delete)
next
  case (failed w err ctx res)
  then show ?case by (simp add: one_entry_per_id_def error_retrying_active distinct_Map_delete)
qed

lemma handler_simple_active:
  "activeDownloads (snd (snd (download_handler_simple cfg req w))) = activeDownloads w \<or>
   (\<exists>vid e. activeDownloads (snd (snd (download_handler_simple cfg req w))) =
      Map_set vid e (activeDownloads w))"
  by (auto simp: download_handler_simple_def Let_def spawn_def res_setHeader_def fresh_res_def
      split: prod.splits)

lemma stderr_simple_active:
  "activeDownloads (stderr_data_simple tf vid output w) = activeDownloads w \<or>
     (\<exists>e. activeDownloads (stderr_data_simple tf vid output w) = Map_set vid e (activeDownloads w))"
  by (auto simp: stderr_data_simple_def Let_def split: prod.splits option.splits)

lemma close_simple_active:
  "activeDownloads (snd (close_simple code vid res w)) = Map_delete vid (activeDownloads w)"
  by (simp add: close_simple_def Let_def)

lemma error_simple_active:
  "activeDownloads (snd (error_simple vid res w)) = Map_delete vid (activeDownloads w)"
  by (simp add: error_simple_def Let_def)

lemma reachable_simple_one_entry:
  "reachable_simple cfg tf w \<Longrightarrow> one_entry_per_id w"
proof (induction rule: reachable_simple.induct)
  case (start w)
  then show ?case by (simp add: one_entry_per_id_def)
next
  case (sockets w cs)
  then show ?case by (simp add: one_entry_per_id_def)
next
  case (request w req)
  then show ?case
    using handler_simple_active [of cfg req w]
    by (auto simp: one_entry_per_id_def distinct_Map_set)
next
  case (stderr_data w vid chunk)
  then show ?case
    using stderr_simple_active [of tf vid chunk w]
    by (auto simp: one_entry_per_id_def distinct_Map_set)
next
  case (closed w code vid res)
  then show ?case by (simp add: one_entry_per_id_def close_simple_active distinct_Map_delete)
next
  case (failed w vid res)
  then show ?case by (simp add: one_entry_per_id_def error_simple_active distinct_Map_delete)
qed

lemma accepted_creates_entry:
  assumes "query_id req = Some vid" "vid \<noteq> []"
    "fst (checkRateLimit now (clientIP req) (rateLimitMap w))"
  shows "Map_get vid (activeDownloads (snd (snd (download_handler_retrying cfg now req w)))) =
     Some \<lparr>e_process = length (spawned w), e_progress = 0, e_attempt = Some 1\<rparr>"
  unfolding handler_retrying_world using assms
  by (simp add: falsy_def try_active Map_get_set)

lemma progress_updates_entry:
  assumes e: "Map_get (ctx_id ctx) (activeDownloads w) = Some e"
    and m: "snd (classify chunk) = Some cap"
  shows "\<exists>ctx' w'. stderr_data_retrying chunk ctx w = Inr (ctx', w') \<and>
     Map_get (ctx_id ctx) (activeDownloads w') = Some (e\<lparr>e_progress := parseFloat cap\<rparr>)"
proof -
  from m obtain c where c: "classify chunk = (c, Some cap)"
    by (cases "classify chunk") auto
  have "stderr_data_retrying chunk ctx w =
      Inr (ctx\<lparr>errorOutput := errorOutput ctx @ chunk\<rparr>,
           send_all
             (JObj [(''type'', JStr ''progress''), (''videoId'', JStr (ctx_id ctx)),
                    (''phase'', JStr (phase c)), (''percent'', JNum (parseFloat cap))])
             (w\<lparr>activeDownloads :=
                  Map_set (ctx_id ctx) (e\<lparr>e_progress := parseFloat cap\<rparr>) (activeDownloads w)\<rparr>))"
    unfolding stderr_data_retrying_def c Let_def by (simp only: prod.case option.case e)
  then show ?thesis by (simp add: Map_get_set)
qed

lemma distinct_keys_count:
  "distinct (map fst m) = (\<forall>k. length (filter (\<lambda>p. fst p = k) m) \<le> 1)"
proof (induction m)
  case Nil
  then show ?case by simp
next
  case (Cons p m)
  have "(fst p \<notin> fst ` set m) = (filter (\<lambda>q. fst q = fst p) m = [])"
  proof
    assume n: "fst p \<notin> fst ` set m"
    show "filter (\<lambda>q. fst q = fst p) m = []"
      unfolding filter_empty_conv using n by (metis image_eqI)
  next
    assume "filter (\<lambda>q. fst q = fst p) m = []"
    then show "fst p \<notin> fst ` set m"
      unfolding filter_empty_conv by auto
  qed
  with Cons show ?case by (auto split: if_splits)
qed

text \<open>
  What the handlers do to the map of active downloads. In every state reached through
  them, in the retrying and in the simple version, the map has at most one entry per
  video identifier. An accepted download request, and every start of an attempt, leaves
  an entry for the identifier with progress 0. A chunk of diagnostics in which the
  progress pattern matches sets the progress of the entry, when there is one, to the
  number captured. After the close handler (any exit code) and after the error handler
  the map has no entry for the identifier.
\<close>

lemma active_downloads_handlers:
  "(reachable_retrying cfg w \<longrightarrow> one_entry_per_id w) \<and>
   (reachable_simple cfg toFixed1 w \<longrightarrow> one_entry_per_id w) \<and>
   one_entry_per_id w = (\<forall>k. length (filter (\<lambda>p. fst p = k) (activeDownloads w)) \<le> 1) \<and>
   (query_id req = Some vid \<and> vid \<noteq> [] \<and>
    fst (checkRateLimit now (clientIP req) (rateLimitMap w)) \<longrightarrow>
      Map_get vid (activeDownloads (snd (snd (download_handler_retrying cfg now req w)))) =
        Some \<lparr>e_process = length (spawned w), e_progress = 0, e_attempt = Some 1\<rparr>) \<and>
   Map_get vid (activeDownloads (snd (snd (tryDownloadWithFallbacks cfg vid a res w)))) =
     Some \<lparr>e_process = length (spawned w), e_progress = 0, e_attempt = Some a\<rparr> \<and>
   (Map_get (ctx_id ctx) (activeDownloads w) = Some e \<and> snd (classify chunk) = Some cap \<longrightarrow>
      (\<exists>ctx' w'. stderr_data_retrying chunk ctx w = Inr (ctx', w') \<and>
         Map_get (ctx_id ctx) (activeDownloads w') = Some (e\<lparr>e_progress := parseFloat cap\<rparr>))) \<and>
   Map_get (ctx_id ctx) (activeDownloads (snd (snd (close_retrying code ctx res w)))) = None \<and>
   Map_get (ctx_id ctx) (activeDownloads (snd (snd (error_retrying err ctx res w)))) = None \<and>
   Map_get vid (activeDownloads (snd (close_simple code vid res w))) = None \<and>
   Map_get vid (activeDownloads (snd (error_simple vid res w))) = None"
proof (intro conjI impI)
  assume "reachable_retrying cfg w"
  then show "one_entry_per_id w" by (rule reachable_retrying_one_entry)
next
  assume "reachable_simple cfg toFixed1 w"
  then show "one_entry_per_id w" by (rule reachable_simple_one_entry)
next
  show "one_entry_per_id w = (\<forall>k. length (filter (\<lambda>p. fst p = k) (activeDownloads w)) \<le> 1)"
    unfolding one_entry_per_id_def by (rule distinct_keys_count)
next
  assume "query_id req = Some vid \<and> vid \<noteq> [] \<and>
    fst (checkRateLimit now (clientIP req) (rateLimitMap w))"
  then show "Map_get vid (activeDownloads (snd (snd (download_handler_retrying cfg now req w)))) =
        Some \<lparr>e_process = length (spawned w), e_progress = 0, e_attempt = Some 1\<rparr>"
    using accepted_creates_entry by blast
next
  show "Map_get vid (activeDownloads (snd (snd (tryDownloadWithFallbacks cfg vid a res w)))) =
     Some \<lparr>e_process = length (spawned w), e_progress = 0, e_attempt = Some a\<rparr>"
    by (simp add: try_active Map_get_set)
next
  assume "Map_get (ctx_id ctx) (activeDownloads w) = Some e \<and> snd (classify chunk) = Some cap"
  then show "\<exists>ctx' w'. stderr_data_retrying chunk ctx w = Inr (ctx', w') \<and>
         Map_get (ctx_id ctx) (activeDownloads w') = Some (e\<lparr>e_progress := parseFloat cap\<rparr>)"
    using progress_updates_entry by blast
next
  show "Map_get (ctx_id ctx) (activeDownloads (snd (snd (close_retrying code ctx res w)))) = None"
    by (simp add: close_retrying_active Map_get_delete)
  show "Map_get (ctx_id ctx) (activeDownloads (snd (snd (error_retrying err ctx res w)))) = None"
    by (simp add: error_retrying_active Map_get_delete)
  show "Map_get vid (activeDownloads (snd (close_simple code vid res w))) = None"
    by (simp add: close_simple_active Map_get_delete)
  show "Map_get vid (activeDownloads (snd (error_simple vid res w))) = None"
    by (simp add: error_simple_active Map_get_delete)
qed

text \<open>
  Claim C8 on the retrying version: the close and error handlers delete the entry, but
  an attempt registers them only after \<^verbatim>\<open>res.setHeader\<close>, and it spawns the
  subprocess and sets the entry before. Whenever the headers of the response are
  already sent, the start of an attempt spawns, sets the entry and throws: no handler
  exists for that subprocess, and nothing deletes its entry when it terminates. This
  happens on a retry after a chunk was written: after the request for \<open>v\<close>, the chunk
  \<open>x\<close> and exit code 1, the close handler deletes the entry and schedules attempt 2,
  whose start leaves the entry of attempt 2 in the map and throws. The same happens on
  the first attempt for an identifier that a header value may not hold, such as one with
  a line feed.
\<close>

theorem C8_entry_without_handlers:
  "tryDownloadWithFallbacks cfg vid a (res\<lparr>headersSent := True\<rparr>) w
     = (Inl ERR_HTTP_HEADERS_SENT, res\<lparr>headersSent := True\<rparr>,
        w\<lparr>spawned := spawned w @ [(YT_DLP_CMD cfg, attempt_args cfg vid a)],
          activeDownloads :=
            Map_set vid \<lparr>e_process = length (spawned w), e_progress = 0, e_attempt = Some a\<rparr>
              (activeDownloads w)\<rparr>) \<and>
   download_handler_retrying \<lparr>YT_DLP_CMD = ''yt-dlp'', cookiesPath = ''c''\<rparr> 0
       \<lparr>query_id = Some ''v'', clientIP = ''a''\<rparr>
       \<lparr>activeDownloads = [], rateLimitMap = Map.empty, metadataCache = [],
        clients = [\<lparr>sock = 7, readyState = 1\<rparr>], spawned = [], sent = []\<rparr>
     = (Some (Inr \<lparr>ctx_id = ''v'', ctx_attempt = 1, hasData = False, errorOutput = []\<rparr>),
        \<lparr>statusCode = 200,
         headers = [(''Content-Type'', ''audio/webm''),
                    (''Content-Disposition'', ''attachment; filename='' @ [CHR 0x22] @ ''v.webm'' @ [CHR 0x22])],
         headersSent = False, body = [], finished = False\<rparr>,
        \<lparr>activeDownloads = [(''v'', \<lparr>e_process = 0, e_progress = 0, e_attempt = Some 1\<rparr>)],
         rateLimitMap = [''a'' \<mapsto> [0]], metadataCache = [],
         clients = [\<lparr>sock = 7, readyState = 1\<rparr>],
         spawned = [(''yt-dlp'', attempt_args \<lparr>YT_DLP_CMD = ''yt-dlp'', cookiesPath = ''c''\<rparr> ''v'' 1)],
         sent = []\<rparr>) \<and>
   stdout_data_retrying ''x''
       \<lparr>ctx_id = ''v'', ctx_attempt = 1, hasData = False, errorOutput = []\<rparr>
       \<lparr>statusCode = 200,
         headers = [(''Content-Type'', ''audio/webm''),
                    (''Content-Disposition'', ''attachment; filename='' @ [CHR 0x22] @ ''v.webm'' @ [CHR 0x22])],
         headersSent = False, body = [], finished = False\<rparr>
     = (\<lparr>ctx_id = ''v'', ctx_attempt = 1, hasData = True, errorOutput = []\<rparr>,
        \<lparr>statusCode = 200,
         headers = [(''Content-Type'', ''audio/webm''),
                    (''Content-Disposition'', ''attachment; filename='' @ [CHR 0x22] @ ''v.webm'' @ [CHR 0x22])],
         headersSent = True, body = [Bytes ''x''], finished = False\<rparr>) \<and>
   close_retrying (Some 1)
       \<lparr>ctx_id = ''v'', ctx_attempt = 1, hasData = True, errorOutput = []\<rparr>
       \<lparr>statusCode = 200,
         headers = [(''Content-Type'', ''audio/webm''),
                    (''Content-Disposition'', ''attachment; filename='' @ [CHR 0x22] @ ''v.webm'' @ [CHR 0x22])],
         headersSent = True, body = [Bytes ''x''], finished = False\<rparr>
       \<lparr>activeDownloads = [(''v'', \<lparr>e_process = 0, e_progress = 0, e_attempt = Some 1\<rparr>)],
         rateLimitMap = [''a'' \<mapsto> [0]], metadataCache = [],
         clients = [\<lparr>sock = 7, readyState = 1\<rparr>],
         spawned = [(''yt-dlp'', attempt_args \<lparr>YT_DLP_CMD = ''yt-dlp'', cookiesPath = ''c''\<rparr> ''v'' 1)],
         sent = []\<rparr>
     = (Retry 2000 2,
        \<lparr>statusCode = 200,
         headers = [(''Content-Type'', ''audio/webm''),
                    (''Content-Disposition'', ''attachment; filename='' @ [CHR 0x22] @ ''v.webm'' @ [CHR 0x22])],
         headersSent = True, body = [Bytes ''x''], finished = False\<rparr>,
        \<lparr>activeDownloads = [], rateLimitMap = [''a'' \<mapsto> [0]], metadataCache = [],
         clients = [\<lparr>sock = 7, readyState = 1\<rparr>],
         spawned = [(''yt-dlp'', attempt_args \<lparr>YT_DLP_CMD = ''yt-dlp'', cookiesPath = ''c''\<rparr> ''v'' 1)],
         sent = [(7, JObj [(''type'', JStr ''phase''), (''id'', JStr ''v''), (''phase'', JStr ''retrying''),
                           (''color'', JStr ''#ffa500''),
                           (''message'', JStr ''Attempt 1 failed, trying different method...'')])]\<rparr>) \<and>
   tryDownloadWithFallbacks \<lparr>YT_DLP_CMD = ''yt-dlp'', cookiesPath = ''c''\<rparr> ''v'' 2
       \<lparr>statusCode = 200,
         headers = [(''Content-Type'', ''audio/webm''),
                    (''Content-Disposition'', ''attachment; filename='' @ [CHR 0x22] @ ''v.webm'' @ [CHR 0x22])],
         headersSent = True, body = [Bytes ''x''], finished = False\<rparr>
       \<lparr>activeDownloads = [], rateLimitMap = [''a'' \<mapsto> [0]], metadataCache = [],
         clients = [\<lparr>sock = 7, readyState = 1\<rparr>],
         spawned = [(''yt-dlp'', attempt_args \<lparr>YT_DLP_CMD = ''yt-dlp'', cookiesPath = ''c''\<rparr> ''v'' 1)],
         sent = [(7, JObj [(''type'', JStr ''phase''), (''id'', JStr ''v''), (''phase'', JStr ''retrying''),
                           (''color'', JStr ''#ffa500''),
                           (''message'', JStr ''Attempt 1 failed, trying different method...'')])]\<rparr>
     = (Inl ERR_HTTP_HEADERS_SENT,
        \<lparr>statusCode = 200,
         headers = [(''Content-Type'', ''audio/webm''),
                    (''Content-Disposition'', ''attachment; filename='' @ [CHR 0x22] @ ''v.webm'' @ [CHR 0x22])],
         headersSent = True, body = [Bytes ''x''], finished = False\<rparr>,
        \<lparr>activeDownloads = [(''v'', \<lparr>e_process = 1, e_progress = 0, e_attempt = Some 2\<rparr>)],
         rateLimitMap = [''a'' \<mapsto> [0]], metadataCache = [],
         clients = [\<lparr>sock = 7, readyState = 1\<rparr>],
         spawned = [(''yt-dlp'', attempt_args \<lparr>YT_DLP_CMD = ''yt-dlp'', cookiesPath = ''c''\<rparr> ''v'' 1), (''yt-dlp'', attempt_args \<lparr>YT_DLP_CMD = ''yt-dlp'', cookiesPath = ''c''\<rparr> ''v'' 2)],
         sent = [(7, JObj [(''type'', JStr ''phase''), (''id'', JStr ''v''), (''phase'', JStr ''retrying''),
                           (''color'', JStr ''#ffa500''),
                           (''message'', JStr ''Attempt 1 failed, trying different method...'')])]\<rparr>) \<and>
   download_handler_retrying \<lparr>YT_DLP_CMD = ''yt-dlp'', cookiesPath = ''c''\<rparr> 0
       \<lparr>query_id = Some [CHR ''a'', CHR 0x0A, CHR ''b''], clientIP = ''a''\<rparr>
       \<lparr>activeDownloads = [], rateLimitMap = Map.empty, metadataCache = [],
        clients = [\<lparr>sock = 7, readyState = 1\<rparr>], spawned = [], sent = []\<rparr>
     = (Some (Inl ERR_INVALID_CHAR),
        \<lparr>statusCode = 200, headers = [(''Content-Type'', ''audio/webm'')],
         headersSent = False, body = [], finished = False\<rparr>,
        \<lparr>activeDownloads = [([CHR ''a'', CHR 0x0A, CHR ''b''], \<lparr>e_process = 0, e_progress = 0, e_attempt = Some 1\<rparr>)],
         rateLimitMap = [''a'' \<mapsto> [0]], metadataCache = [],
         clients = [\<lparr>sock = 7, readyState = 1\<rparr>],
         spawned = [(''yt-dlp'', attempt_args \<lparr>YT_DLP_CMD = ''yt-dlp'', cookiesPath = ''c''\<rparr> [CHR ''a'', CHR 0x0A, CHR ''b''] 1)],
         sent = []\<rparr>)"
proof (intro conjI)
  show "tryDownloadWithFallbacks cfg vid a (res\<lparr>headersSent := True\<rparr>) w
     = (Inl ERR_HTTP_HEADERS_SENT, res\<lparr>headersSent := True\<rparr>,
        w\<lparr>spawned := spawned w @ [(YT_DLP_CMD cfg, attempt_args cfg vid a)],
          activeDownloads :=
            Map_set vid \<lparr>e_process = length (spawned w), e_progress = 0, e_attempt = Some a\<rparr>
              (activeDownloads w)\<rparr>)"
    by (simp add: tryDownloadWithFallbacks_def spawn_def res_setHeader_def Let_def)
  show "download_handler_retrying \<lparr>YT_DLP_CMD = ''yt-dlp'', cookiesPath = ''c''\<rparr> 0
       \<lparr>query_id = Some ''v'', clientIP = ''a''\<rparr>
       \<lparr>activeDownloads = [], rateLimitMap = Map.empty, metadataCache = [],
        clients = [\<lparr>sock = 7, readyState = 1\<rparr>], spawned = [], sent = []\<rparr>
     = (Some (Inr \<lparr>ctx_id = ''v'', ctx_attempt = 1, hasData = False, errorOutput = []\<rparr>),
        \<lparr>statusCode = 200,
         headers = [(''Content-Type'', ''audio/webm''),
                    (''Content-Disposition'', ''attachment; filename='' @ [CHR 0x22] @ ''v.webm'' @ [CHR 0x22])],
         headersSent = False, body = [], finished = False\<rparr>,
        \<lparr>activeDownloads = [(''v'', \<lparr>e_process = 0, e_progress = 0, e_attempt = Some 1\<rparr>)],
         rateLimitMap = [''a'' \<mapsto> [0]], metadataCache = [],
         clients = [\<lparr>sock = 7, readyState = 1\<rparr>],
         spawned = [(''yt-dlp'', attempt_args \<lparr>YT_DLP_CMD = ''yt-dlp'', cookiesPath = ''c''\<rparr> ''v'' 1)],
         sent = []\<rparr>)"
    by (rule handler_start_example)
  show "stdout_data_retrying ''x''
       \<lparr>ctx_id = ''v'', ctx_attempt = 1, hasData = False, errorOutput = []\<rparr>
       \<lparr>statusCode = 200,
         headers = [(''Content-Type'', ''audio/webm''),
                    (''Content-Disposition'', ''attachment; filename='' @ [CHR 0x22] @ ''v.webm'' @ [CHR 0x22])],
         headersSent = False, body = [], finished = False\<rparr>
     = (\<lparr>ctx_id = ''v'', ctx_attempt = 1, hasData = True, errorOutput = []\<rparr>,
        \<lparr>statusCode = 200,
         headers = [(''Content-Type'', ''audio/webm''),
                    (''Content-Disposition'', ''attachment; filename='' @ [CHR 0x22] @ ''v.webm'' @ [CHR 0x22])],
         headersSent = True, body = [Bytes ''x''], finished = False\<rparr>)"
    by (simp add: stdout_data_retrying_def res_write_def)
  show "close_retrying (Some 1)
       \<lparr>ctx_id = ''v'', ctx_attempt = 1, hasData = True, errorOutput = []\<rparr>
       \<lparr>statusCode = 200,
         headers = [(''Content-Type'', ''audio/webm''),
                    (''Content-Disposition'', ''attachment; filename='' @ [CHR 0x22] @ ''v.webm'' @ [CHR 0x22])],
         headersSent = True, body = [Bytes ''x''], finished = False\<rparr>
       \<lparr>activeDownloads = [(''v'', \<lparr>e_process = 0, e_progress = 0, e_attempt = Some 1\<rparr>)],
         rateLimitMap = [''a'' \<mapsto> [0]], metadataCache = [],
         clients = [\<lparr>sock = 7, readyState = 1\<rparr>],
         spawned = [(''yt-dlp'', attempt_args \<lparr>YT_DLP_CMD = ''yt-dlp'', cookiesPath = ''c''\<rparr> ''v'' 1)],
         sent = []\<rparr>
     = (Retry 2000 2,
        \<lparr>statusCode = 200,
         headers = [(''Content-Type'', ''audio/webm''),
                    (''Content-Disposition'', ''attachment; filename='' @ [CHR 0x22] @ ''v.webm'' @ [CHR 0x22])],
         headersSent = True, body = [Bytes ''x''], finished = False\<rparr>,
        \<lparr>activeDownloads = [], rateLimitMap = [''a'' \<mapsto> [0]], metadataCache = [],
         clients = [\<lparr>sock = 7, readyState = 1\<rparr>],
         spawned = [(''yt-dlp'', attempt_args \<lparr>YT_DLP_CMD = ''yt-dlp'', cookiesPath = ''c''\<rparr> ''v'' 1)],
         sent = [(7, JObj [(''type'', JStr ''phase''), (''id'', JStr ''v''), (''phase'', JStr ''retrying''),
                           (''color'', JStr ''#ffa500''),
                           (''message'', JStr ''Attempt 1 failed, trying different method...'')])]\<rparr>)"
    by (simp add: close_retrying_def Let_def maxAttempts_def send_all_def broadcast_def
        Map_delete_def)
  show "tryDownloadWithFallbacks \<lparr>YT_DLP_CMD = ''yt-dlp'', cookiesPath = ''c''\<rparr> ''v'' 2
       \<lparr>statusCode = 200,
         headers = [(''Content-Type'', ''audio/webm''),
                    (''Content-Disposition'', ''attachment; filename='' @ [CHR 0x22] @ ''v.webm'' @ [CHR 0x22])],
         headersSent = True, body = [Bytes ''x''], finished = False\<rparr>
       \<lparr>activeDownloads = [], rateLimitMap = [''a'' \<mapsto> [0]], metadataCache = [],
         clients = [\<lparr>sock = 7, readyState = 1\<rparr>],
         spawned = [(''yt-dlp'', attempt_args \<lparr>YT_DLP_CMD = ''yt-dlp'', cookiesPath = ''c''\<rparr> ''v'' 1)],
         sent = [(7, JObj [(''type'', JStr ''phase''), (''id'', JStr ''v''), (''phase'', JStr ''retrying''),
                           (''color'', JStr ''#ffa500''),
                           (''message'', JStr ''Attempt 1 failed, trying different method...'')])]\<rparr>
     = (Inl ERR_HTTP_HEADERS_SENT,
        \<lparr>statusCode = 200,
         headers = [(''Content-Type'', ''audio/webm''),
                    (''Content-Disposition'', ''attachment; filename='' @ [CHR 0x22] @ ''v.webm'' @ [CHR 0x22])],
         headersSent = True, body = [Bytes ''x''], finished = False\<rparr>,
        \<lparr>activeDownloads = [(''v'', \<lparr>e_process = 1, e_progress = 0, e_attempt = Some 2\<rparr>)],
         rateLimitMap = [''a'' \<mapsto> [0]], metadataCache = [],
         clients = [\<lparr>sock = 7, readyState = 1\<rparr>],
         spawned = [(''yt-dlp'', attempt_args \<lparr>YT_DLP_CMD = ''yt-dlp'', cookiesPath = ''c''\<rparr> ''v'' 1), (''yt-dlp'', attempt_args \<lparr>YT_DLP_CMD = ''yt-dlp'', cookiesPath = ''c''\<rparr> ''v'' 2)],
         sent = [(7, JObj [(''type'', JStr ''phase''), (''id'', JStr ''v''), (''phase'', JStr ''retrying''),
                           (''color'', JStr ''#ffa500''),
                           (''message'', JStr ''Attempt 1 failed, trying different method...'')])]\<rparr>)"
    by (simp add: tryDownloadWithFallbacks_def spawn_def res_setHeader_def Let_def Map_set_def)
  show "download_handler_retrying \<lparr>YT_DLP_CMD = ''yt-dlp'', cookiesPath = ''c''\<rparr> 0
       \<lparr>query_id = Some [CHR ''a'', CHR 0x0A, CHR ''b''], clientIP = ''a''\<rparr>
       \<lparr>activeDownloads = [], rateLimitMap = Map.empty, metadataCache = [],
        clients = [\<lparr>sock = 7, readyState = 1\<rparr>], spawned = [], sent = []\<rparr>
     = (Some (Inl ERR_INVALID_CHAR),
        \<lparr>statusCode = 200, headers = [(''Content-Type'', ''audio/webm'')],
         headersSent = False, body = [], finished = False\<rparr>,
        \<lparr>activeDownloads = [([CHR ''a'', CHR 0x0A, CHR ''b''], \<lparr>e_process = 0, e_progress = 0, e_attempt = Some 1\<rparr>)],
         rateLimitMap = [''a'' \<mapsto> [0]], metadataCache = [],
         clients = [\<lparr>sock = 7, readyState = 1\<rparr>],
         spawned = [(''yt-dlp'', attempt_args \<lparr>YT_DLP_CMD = ''yt-dlp'', cookiesPath = ''c''\<rparr> [CHR ''a'', CHR 0x0A, CHR ''b''] 1)],
         sent = []\<rparr>)"
    by (simp add: download_handler_retrying_def falsy_def checkRateLimit_def RATE_LIMIT_MAX_def
        tryDownloadWithFallbacks_def spawn_def Map_set_def res_setHeader_def fresh_res_def Let_def
        invalid_header_char_def)
qed

subsection \<open>The rate-limit state\<close>

text \<open>
  Claim C9. A rejected check returns the rate-limit map it was given: no instant is
  recorded and the pruned list is not stored. Hence, in the map reached from the empty
  one by any history of checks, the list stored for any IP has at most 3 entries.
\<close>

theorem C9_rejected_unchanged_and_bounded:
  "(fst (checkRateLimit now ip m) = False \<longrightarrow> snd (checkRateLimit now ip m) = m) \<and>
   (\<forall>k l. rate_calls calls Map.empty k = Some l \<longrightarrow> length l \<le> 3)"
proof (intro conjI allI impI)
  assume "fst (checkRateLimit now ip m) = False"
  then show "snd (checkRateLimit now ip m) = m" by (rule checkRateLimit_rejected)
next
  fix k l
  assume "rate_calls calls Map.empty k = Some l"
  then show "length l \<le> 3"
    using rate_calls_bounded [of Map.empty calls k l] by simp
qed

theorem C9_witness:
  "fst (checkRateLimit 3 ''a'' [''a'' \<mapsto> [0, 1, 2]]) = False \<and>
   snd (checkRateLimit 3 ''a'' [''a'' \<mapsto> [0, 1, 2]]) = [''a'' \<mapsto> [0, 1, 2]] \<and>
   rate_calls [(0, ''a''), (1, ''a''), (2, ''a''), (3, ''a'')] Map.empty ''a'' = Some [0, 1, 2] \<and>
   length [0 :: int, 1, 2] \<le> 3"
proof -
  have rej: "fst (checkRateLimit 3 ''a'' [''a'' \<mapsto> [0, 1, 2]]) = False"
    by (simp add: checkRateLimit_def RATE_LIMIT_WINDOW_def RATE_LIMIT_MAX_def)
  have run: "rate_calls [(0, ''a''), (1, ''a''), (2, ''a''), (3, ''a'')] Map.empty ''a''
      = Some [0, 1, 2]"
    by (simp add: checkRateLimit_def RATE_LIMIT_WINDOW_def RATE_LIMIT_MAX_def)
  from C9_rejected_unchanged_and_bounded
    [of 3 "''a''" "[''a'' \<mapsto> [0, 1, 2]]" "[(0, ''a''), (1, ''a''), (2, ''a''), (3, ''a'')]"]
  show ?thesis using rej run by simp
qed

end
